theory Spec2Isabelle
  imports Complex_Main "HOL-Library.AList" "HOL-Library.Sublist"
begin

section \<open>Python values, errors and the collaborators of the builder\<close>

text \<open>
  The development embeds \<^verbatim>\<open>SimpleDateFormatStringParameterBuilder\<close> of
  \<^verbatim>\<open>simple_date_format_string_parameter_builder.py\<close>. Every raise of the Python code is
  a value \<open>Inl e\<close> of the result type \<open>error + 'a\<close>.
\<close>

datatype error =
    ZeroDivisionError
  | TypeError
  | IndexError
  | KeyError
  | AttributeError
  | ParameterNotFound
  | TypeMismatch
  | MetricComputationFailure

text \<open>
  Floats. A Python float is a real number (the rounding of the quotient is idealised
  away), \<^verbatim>\<open>nan\<close>, or an infinity. The comparisons \<^verbatim>\<open><\<close> and \<^verbatim>\<open><=\<close> are false as soon
  as one side is \<^verbatim>\<open>nan\<close>.
\<close>

datatype pyfloat = Finite real | NaN | PosInf | NegInf

fun float_less :: "pyfloat \<Rightarrow> pyfloat \<Rightarrow> bool" where
  "float_less (Finite a) (Finite b) = (a < b)"
| "float_less (Finite a) PosInf = True"
| "float_less NegInf (Finite b) = True"
| "float_less NegInf PosInf = True"
| "float_less a b = False"

definition float_le :: "pyfloat \<Rightarrow> pyfloat \<Rightarrow> bool" where
  "float_le a b \<longleftrightarrow> a \<noteq> NaN \<and> b \<noteq> NaN \<and> (a = b \<or> float_less a b)"

text \<open>
  Integers. The values of a metric come in a numpy array (the source slices it with
  \<^verbatim>\<open>[:, 0]\<close>), so the built-in \<^verbatim>\<open>sum\<close> of a column is a numpy integer scalar, except for
  an empty column, where it is the Python int 0 that \<^verbatim>\<open>sum\<close> starts from. A difference is a
  Python int only if both sides are. Wrap-around of the 64-bit scalars is left out.
\<close>

datatype pynum = PyInt int | NpInt int

fun num_value :: "pynum \<Rightarrow> int" where
  "num_value (PyInt a) = a"
| "num_value (NpInt a) = a"

definition py_sum :: "int list \<Rightarrow> pynum" where
  "py_sum xs = (if xs = [] then PyInt 0 else NpInt (sum_list xs))"

fun py_sub :: "pynum \<Rightarrow> pynum \<Rightarrow> pynum" where
  "py_sub (PyInt a) (PyInt b) = PyInt (a - b)"
| "py_sub x y = NpInt (num_value x - num_value y)"

text \<open>
  numpy's true division of integer scalars raises nothing: a zero divisor gives
  \<^verbatim>\<open>nan\<close> for 0/0 and an infinity otherwise (with a \<^verbatim>\<open>RuntimeWarning\<close>, which is not
  modelled).
\<close>

definition np_true_divide :: "int \<Rightarrow> int \<Rightarrow> pyfloat" where
  "np_true_divide a b =
     (if b \<noteq> 0 then Finite (real_of_int a / real_of_int b)
      else if a = 0 then NaN
      else if 0 < a then PosInf
      else NegInf)"

text \<open>
  \<^verbatim>\<open>a / b\<close>: Python's division, which raises \<^verbatim>\<open>ZeroDivisionError\<close> for a zero divisor,
  when both sides are Python ints, and numpy's when one side is a numpy scalar.
\<close>

fun py_truediv :: "pynum \<Rightarrow> pynum \<Rightarrow> error + pyfloat" where
  "py_truediv (PyInt a) (PyInt b) =
     (if b = 0 then Inl ZeroDivisionError else Inr (Finite (real_of_int a / real_of_int b)))"
| "py_truediv x y = Inr (np_true_divide (num_value x) (num_value y))"

text \<open>
  The dynamically typed values a configuration field, a resolved parameter or a keyword
  dictionary can hold. A \<^verbatim>\<open>dict\<close> keeps its insertion order, so it is an association list.
\<close>

datatype pyval =
    PyNone
  | PyStr string
  | PyFloat pyfloat
  | PyList "string list"
  | PyTuple "string list"
  | PySet "string set"
  | PyDict "(string \<times> pyval) list"

datatype pytype = TFloat | TStr | TList | TDict

text \<open>Truth value of a Python object, as \<^verbatim>\<open>if self.metric_value_kwargs:\<close> takes it.\<close>

fun truthy :: "pyval \<Rightarrow> bool" where
  "truthy PyNone = False"
| "truthy (PyStr s) = (s \<noteq> [])"
| "truthy (PyFloat r) = (r \<noteq> Finite 0)"
| "truthy (PyList xs) = (xs \<noteq> [])"
| "truthy (PyTuple xs) = (xs \<noteq> [])"
| "truthy (PySet S) = (S \<noteq> {})"
| "truthy (PyDict d) = (d \<noteq> [])"

text \<open>Whether a value can be a dictionary key: \<^verbatim>\<open>list\<close>, \<^verbatim>\<open>set\<close> and \<^verbatim>\<open>dict\<close> are unhashable.\<close>

fun hashable :: "pyval \<Rightarrow> bool" where
  "hashable (PyList xs) = False"
| "hashable (PySet S) = False"
| "hashable (PyDict d) = False"
| "hashable v = True"

fun has_type :: "pyval \<Rightarrow> pytype \<Rightarrow> bool" where
  "has_type (PyFloat r) TFloat = True"
| "has_type (PyStr s) TStr = True"
| "has_type (PyList xs) TList = True"
| "has_type (PyDict d) TDict = True"
| "has_type v ty = False"

text \<open>
  \<^verbatim>\<open>AttributedResolvedMetrics\<close>: the attributes (value kwargs) that distinguish one
  fanned-out metric configuration, with its own 2-D array of values (rows are batches),
  the attribute \<^verbatim>\<open>metric_values\<close> of the class.
\<close>

record attributed_resolved_metrics =
  metric_attributes :: "(string \<times> pyval) list"
  arm_metric_values :: "int list list"

text \<open>
  \<^verbatim>\<open>MetricComputationResult.metric_values\<close>: a 2-D array for one metric configuration,
  or a sequence of \<^verbatim>\<open>AttributedResolvedMetrics\<close> for a fanned-out request.
\<close>

datatype metric_values =
    Array2D "int list list"
  | Attributed "attributed_resolved_metrics list"

text \<open>The \<^verbatim>\<open>metric_value_kwargs\<close> argument of \<^verbatim>\<open>get_metrics\<close>: one value, or a list (fan-out).\<close>

datatype value_kwargs = Single pyval | FanOut "pyval list"

text \<open>
  What \<^verbatim>\<open>_build_parameters\<close> reaches through its arguments \<^verbatim>\<open>domain\<close>,
  \<^verbatim>\<open>variables\<close>, \<^verbatim>\<open>parameters\<close> and through the base class, none of which is in the
  source: the namespace that reference strings are looked up in, the inherited
  \<^verbatim>\<open>get_metrics\<close>, and the order in which Python iterates over a set of strings.
\<close>

record env =
  lookup :: "string \<Rightarrow> pyval option"
  get_metrics :: "string \<Rightarrow> pyval \<Rightarrow> value_kwargs \<Rightarrow> error + metric_values"
  set_iter :: "string set \<Rightarrow> string list"

text \<open>The configuration of a builder, as \<^verbatim>\<open>__init__\<close> stores it.\<close>

record builder =
  name :: string
  metric_domain_kwargs :: pyval
  metric_value_kwargs :: pyval
  threshold :: pyval
  candidate_strings :: pyval

definition CANDIDATE_STRINGS :: "string set" where
  "CANDIDATE_STRINGS = {
    ''%Y-%m-%d'',
    ''%m-%d-%Y'',
    ''%y-%m-%d'',
    ''%Y-%m-%dT%z'',
    ''%Y-%m-%d %H:%M:%S'',
    ''%Y %b %d %H:%M:%S.%f %Z'',
    ''%b %d %H:%M:%S %z %Y'',
    ''%d/%b/%Y:%H:%M:%S %z'',
    ''%b %d, %Y %H:%M:%S %p'',
    ''%b %d %Y %H:%M:%S'',
    ''%b %d %H:%M:%S %Y'',
    ''%b %d %H:%M:%S %z'',
    ''%b %d %H:%M:%S'',
    ''%Y-%m-%d'T'%H:%M:%S%z'',
    ''%Y-%m-%d'T'%H:%M:%S.%f'%z'' @ [CHR 0x27],
    ''%Y-%m-%d %H:%M:%S %z'',
    ''%Y-%m-%d %H:%M:%S%z'',
    ''%Y-%m-%d %H:%M:%S,%f'',
    ''%Y/%m/%d*%H:%M:%S'',
    ''%Y %b %d %H:%M:%S.%f*%Z'',
    ''%Y %b %d %H:%M:%S.%f'',
    ''%Y-%m-%d %H:%M:%S,%f%z'',
    ''%Y-%m-%d %H:%M:%S.%f'',
    ''%Y-%m-%d %H:%M:%S.%f%z'',
    ''%Y-%m-%d'T'%H:%M:%S.%f'',
    ''%Y-%m-%d'T'%H:%M:%S'',
    ''%Y-%m-%d'T'%H:%M:%S'%z'' @ [CHR 0x27],
    ''%Y-%m-%d*%H:%M:%S:%f'',
    ''%Y-%m-%d*%H:%M:%S'',
    ''%y-%m-%d %H:%M:%S,%f %z'',
    ''%y-%m-%d %H:%M:%S,%f'',
    ''%y-%m-%d %H:%M:%S'',
    ''%y/%m/%d %H:%M:%S'',
    ''%y%m%d %H:%M:%S'',
    ''%Y%m%d %H:%M:%S.%f'',
    ''%m/%d/%y*%H:%M:%S'',
    ''%m/%d/%Y*%H:%M:%S'',
    ''%m/%d/%Y*%H:%M:%S*%f'',
    ''%m/%d/%y %H:%M:%S %z'',
    ''%m/%d/%Y %H:%M:%S %z'',
    ''%H:%M:%S'',
    ''%H:%M:%S.%f'',
    ''%H:%M:%S,%f'',
    ''%d/%b %H:%M:%S,%f'',
    ''%d/%b/%Y:%H:%M:%S'',
    ''%d/%b/%Y %H:%M:%S'',
    ''%d-%b-%Y %H:%M:%S'',
    ''%d-%b-%Y %H:%M:%S.%f'',
    ''%d %b %Y %H:%M:%S'',
    ''%d %b %Y %H:%M:%S*%f'',
    ''%m%d_%H:%M:%S'',
    ''%m%d_%H:%M:%S.%f'',
    ''%m/%d/%Y %H:%M:%S %p:%f'',
    ''%m/%d/%Y %H:%M:%S %p''
  }"

definition fully_qualified_parameter_name :: "builder \<Rightarrow> string" where
  "fully_qualified_parameter_name self = ''$parameter.'' @ name self"

section \<open>The parameter-resolution utility\<close>

text \<open>
  Modelled from the spec: a reference string has the form \<^verbatim>\<open>$parameter....\<close>,
  \<^verbatim>\<open>$domain....\<close> or \<^verbatim>\<open>$variables....\<close>; the test is part of the utility below.
\<close>

definition is_reference :: "string \<Rightarrow> bool" where
  "is_reference s \<longleftrightarrow>
     take 11 s = ''$parameter.'' \<or> take 8 s = ''$domain.'' \<or> take 11 s = ''$variables.''"

text \<open>
  Modelled from the spec: \<^verbatim>\<open>get_parameter_value_and_validate_return_type\<close> of
  \<^verbatim>\<open>rule_based_profiler/util.py\<close> is not in the source. An input that is not a reference
  string is returned unchanged; a reference string is looked up and fails with "parameter
  not found" when the path is absent; with an expected type, a resolved value of another
  type fails with "type mismatch".
\<close>

definition get_parameter_value_and_validate_return_type ::
  "env \<Rightarrow> pyval \<Rightarrow> pytype option \<Rightarrow> error + pyval" where
  "get_parameter_value_and_validate_return_type e parameter_reference expected_return_type =
     (case (case parameter_reference of
              PyStr s \<Rightarrow>
                if is_reference s
                then (case lookup e s of None \<Rightarrow> Inl ParameterNotFound | Some v \<Rightarrow> Inr v)
                else Inr parameter_reference
            | _ \<Rightarrow> Inr parameter_reference) of
        Inl err \<Rightarrow> Inl err
      | Inr v \<Rightarrow>
          (case expected_return_type of
             None \<Rightarrow> Inr v
           | Some ty \<Rightarrow> if has_type v ty then Inr v else Inl TypeMismatch))"

section \<open>The steps of \<^verbatim>\<open>_build_parameters\<close>\<close>

text \<open>
  \<^verbatim>\<open>metric_values[:, 0]\<close>: the first column of a 2-D array, one entry for each row; an
  array without a column 0 raises \<^verbatim>\<open>IndexError\<close>.
\<close>

definition column0 :: "int list list \<Rightarrow> error + int list" where
  "column0 rows = (if [] \<in> set rows then Inl IndexError else Inr (map hd rows))"

text \<open>Lines 167 to 183: the non-null count metric, summed over the batches.\<close>

definition nonnull_count :: "builder \<Rightarrow> env \<Rightarrow> error + pynum" where
  "nonnull_count self e =
     (case get_metrics e ''column_values.nonnull.count''
             (metric_domain_kwargs self) (Single (metric_value_kwargs self)) of
        Inl err \<Rightarrow> Inl err
      | Inr (Attributed arms) \<Rightarrow> Inl TypeError
      | Inr (Array2D metric_values) \<Rightarrow>
          (case column0 metric_values of
             Inl err \<Rightarrow> Inl err
           | Inr col \<Rightarrow> Inr (py_sum col)))"

text \<open>
  Lines 186 to 199: the candidate set. Only a resolved value that is a \<^verbatim>\<open>list\<close> replaces
  the built-in catalog.
\<close>

definition candidate_set_of :: "pyval \<Rightarrow> string set" where
  "candidate_set_of v = (case v of PyList xs \<Rightarrow> set xs | _ \<Rightarrow> CANDIDATE_STRINGS)"

definition resolved_candidate_strings :: "builder \<Rightarrow> env \<Rightarrow> error + string set" where
  "resolved_candidate_strings self e =
     (case get_parameter_value_and_validate_return_type e (candidate_strings self) None of
        Inl err \<Rightarrow> Inl err
      | Inr v \<Rightarrow> Inr (candidate_set_of v))"

text \<open>
  Lines 205 to 218: the value kwargs of one candidate. The dictionary display
  \<^verbatim>\<open>{**self.metric_value_kwargs, **{"strftime_format": fmt_string}}\<close> unpacks the field
  as it is stored; unpacking a value that is not a mapping raises \<^verbatim>\<open>TypeError\<close>.
\<close>

definition match_strftime_metric_value_kwargs :: "builder \<Rightarrow> string \<Rightarrow> error + pyval" where
  "match_strftime_metric_value_kwargs self fmt_string =
     (if truthy (metric_value_kwargs self)
      then (case metric_value_kwargs self of
              PyDict d \<Rightarrow> Inr (PyDict (AList.update ''strftime_format'' (PyStr fmt_string) d))
            | _ \<Rightarrow> Inl TypeError)
      else Inr (PyDict [(''strftime_format'', PyStr fmt_string)]))"

fun match_strftime_metric_value_kwargs_list ::
  "builder \<Rightarrow> string list \<Rightarrow> error + pyval list" where
  "match_strftime_metric_value_kwargs_list self [] = Inr []"
| "match_strftime_metric_value_kwargs_list self (fmt_string # rest) =
     (case match_strftime_metric_value_kwargs self fmt_string of
        Inl err \<Rightarrow> Inl err
      | Inr kw \<Rightarrow>
          (case match_strftime_metric_value_kwargs_list self rest of
             Inl err \<Rightarrow> Inl err
           | Inr kws \<Rightarrow> Inr (kw # kws)))"

text \<open>
  Lines 221 to 228: the fanned-out request. The loop that follows reads the attribute
  \<^verbatim>\<open>metric_values\<close> of every element, which a row of a plain array does not have.
\<close>

definition unexpected_count_metrics ::
  "builder \<Rightarrow> env \<Rightarrow> pyval list \<Rightarrow> error + attributed_resolved_metrics list" where
  "unexpected_count_metrics self e kws =
     (case get_metrics e ''column_values.match_strftime_format.unexpected_count''
             (metric_domain_kwargs self) (FanOut kws) of
        Inl err \<Rightarrow> Inl err
      | Inr (Attributed arms) \<Rightarrow> Inr arms
      | Inr (Array2D rows) \<Rightarrow> (if rows = [] then Inr [] else Inl AttributeError))"

text \<open>
  Lines 235 to 243, one round of the loop: the candidate's unexpected counts are summed,
  the ratio is computed, and the key is read from the attributes.
\<close>

definition success_ratio_entry ::
  "pynum \<Rightarrow> attributed_resolved_metrics \<Rightarrow> error + (pyval \<times> pyfloat)" where
  "success_ratio_entry nn arm =
     (case column0 (arm_metric_values arm) of
        Inl err \<Rightarrow> Inl err
      | Inr metric_values \<Rightarrow>
          (case py_truediv (py_sub nn (py_sum metric_values)) nn of
             Inl err \<Rightarrow> Inl err
           | Inr success_ratio \<Rightarrow>
               (case map_of (metric_attributes arm) ''strftime_format'' of
                  None \<Rightarrow> Inl KeyError
                | Some key \<Rightarrow>
                    if hashable key then Inr (key, success_ratio) else Inl TypeError)))"

text \<open>
  Lines 230 to 243: the dictionary \<^verbatim>\<open>format_string_success_ratios\<close>. A key that is
  stored again keeps its place and takes the new ratio.
\<close>

fun success_ratios_loop ::
  "pynum \<Rightarrow> attributed_resolved_metrics list \<Rightarrow> (pyval \<times> pyfloat) list
     \<Rightarrow> error + (pyval \<times> pyfloat) list" where
  "success_ratios_loop nn [] ratios = Inr ratios"
| "success_ratios_loop nn (arm # arms) ratios =
     (case success_ratio_entry nn arm of
        Inl err \<Rightarrow> Inl err
      | Inr (key, success_ratio) \<Rightarrow>
          success_ratios_loop nn arms (AList.update key success_ratio ratios))"

definition format_string_success_ratios ::
  "builder \<Rightarrow> env \<Rightarrow> error + (pyval \<times> pyfloat) list" where
  "format_string_success_ratios self e =
     (case nonnull_count self e of
        Inl err \<Rightarrow> Inl err
      | Inr nn \<Rightarrow>
     (case resolved_candidate_strings self e of
        Inl err \<Rightarrow> Inl err
      | Inr cands \<Rightarrow>
     (case match_strftime_metric_value_kwargs_list self (set_iter e cands) of
        Inl err \<Rightarrow> Inl err
      | Inr kws \<Rightarrow>
     (case unexpected_count_metrics self e kws of
        Inl err \<Rightarrow> Inl err
      | Inr arms \<Rightarrow> success_ratios_loop nn arms []))))"

text \<open>
  Lines 249 to 255: the threshold, resolved with \<^verbatim>\<open>expected_return_type=float\<close>; the
  utility lets no other type through.
\<close>

definition resolved_threshold :: "builder \<Rightarrow> env \<Rightarrow> error + pyfloat" where
  "resolved_threshold self e =
     (case get_parameter_value_and_validate_return_type e (threshold self) (Some TFloat) of
        Inl err \<Rightarrow> Inl err
      | Inr (PyFloat t) \<Rightarrow> Inr t
      | Inr _ \<Rightarrow> Inl TypeMismatch)"

text \<open>Lines 258 to 261: the running best over the items of the dictionary.\<close>

fun best_loop ::
  "pyfloat \<Rightarrow> (pyval \<times> pyfloat) list \<Rightarrow> pyval \<times> pyfloat \<Rightarrow> pyval \<times> pyfloat" where
  "best_loop t [] best = best"
| "best_loop t ((fmt_string, ratio) # items) (best_fmt_string, best_ratio) =
     (if float_less best_ratio ratio \<and> float_le t ratio
      then best_loop t items (fmt_string, ratio)
      else best_loop t items (best_fmt_string, best_ratio))"

text \<open>
  \<^verbatim>\<open>_build_parameters\<close>. The argument \<^verbatim>\<open>parameter_container\<close> is taken and never read.
  The result is the pair of the best format string (or \<^verbatim>\<open>None\<close>) and the details
  dictionary \<^verbatim>\<open>{"success_ratio": best_ratio}\<close>.
\<close>

definition build_parameters_impl ::
  "builder \<Rightarrow> 'c \<Rightarrow> env \<Rightarrow> error + (pyval \<times> (string \<times> pyval) list)" where
  "build_parameters_impl self parameter_container e =
     (case format_string_success_ratios self e of
        Inl err \<Rightarrow> Inl err
      | Inr ratios \<Rightarrow>
     (case resolved_threshold self e of
        Inl err \<Rightarrow> Inl err
      | Inr t \<Rightarrow>
          (case best_loop t ratios (PyNone, Finite 0) of
             (best_fmt_string, best_ratio) \<Rightarrow>
               Inr (best_fmt_string, [(''success_ratio'', PyFloat best_ratio)]))))"

text \<open>
  An \<^verbatim>\<open>AttributedResolvedMetrics\<close> that the loop of lines 233 to 243 gets through: its
  array has a column 0, and its attributes hold a hashable value under \<^verbatim>\<open>"strftime_format"\<close>.
\<close>

definition well_formed_arm :: "attributed_resolved_metrics \<Rightarrow> bool" where
  "well_formed_arm arm \<longleftrightarrow>
     [] \<notin> set (arm_metric_values arm) \<and>
     (case map_of (metric_attributes arm) ''strftime_format'' of
        None \<Rightarrow> False
      | Some key \<Rightarrow> hashable key)"

section \<open>The public entry point and the parameter container\<close>

text \<open>The record \<^verbatim>\<open>{value, details}\<close> that a leaf of the container holds.\<close>

record parameter_record =
  "value" :: pyval
  details :: "(string \<times> pyval) list"

text \<open>
  Modelled from the spec: \<^verbatim>\<open>ParameterContainer\<close> is not in the source. It is a tree
  keyed by dotted path segments; each leaf node holds a record.
\<close>

datatype parameter_node =
    Leaf parameter_record
  | Node "(string \<times> parameter_node) list"

text \<open>
  Modelled from the spec: the segments of a dotted name, as \<^verbatim>\<open>name.split(".")\<close> gives
  them.
\<close>

fun split_dots :: "string \<Rightarrow> string list" where
  "split_dots [] = [[]]"
| "split_dots (c # cs) =
     (if c = CHR ''.'' then [] # split_dots cs
      else (case split_dots cs of
              [] \<Rightarrow> [[c]]
            | seg # segs \<Rightarrow> (c # seg) # segs))"

text \<open>
  Modelled from the spec: reading a name walks the segments and fails (here \<open>None\<close>, for
  "parameter not found") when the path does not end on a leaf.
\<close>

fun read_node :: "string list \<Rightarrow> parameter_node \<Rightarrow> parameter_record option" where
  "read_node [] (Leaf r) = Some r"
| "read_node [] (Node children) = None"
| "read_node (seg # segs) (Leaf r) = None"
| "read_node (seg # segs) (Node children) =
     (case map_of children seg of
        None \<Rightarrow> None
      | Some child \<Rightarrow> read_node segs child)"

text \<open>
  Modelled from the spec: writing a name creates any missing intermediate nodes and
  replaces whatever is at the end of the path by the leaf with the whole record. The
  spec does not say what a write does when an intermediate segment names a leaf; here the
  leaf gives way to an intermediate node.
\<close>

fun write_node :: "string list \<Rightarrow> parameter_record \<Rightarrow> parameter_node \<Rightarrow> parameter_node" where
  "write_node [] r node = Leaf r"
| "write_node (seg # segs) r (Leaf old) = Node [(seg, write_node segs r (Node []))]"
| "write_node (seg # segs) r (Node children) =
     Node (AList.update seg
             (write_node segs r (case map_of children seg of None \<Rightarrow> Node [] | Some child \<Rightarrow> child))
             children)"

text \<open>
  Containers are objects that the caller and the builder share, so they live in a store
  and are passed by address; \<^verbatim>\<open>variables\<close> and the values of \<^verbatim>\<open>parameters\<close> are
  containers of the same store.
\<close>

type_synonym store = "nat \<Rightarrow> parameter_node"

text \<open>
  Modelled from the spec: \<^verbatim>\<open>build_parameters\<close> of the base class \<^verbatim>\<open>ParameterBuilder\<close>
  is not in the source. It calls \<^verbatim>\<open>_build_parameters\<close>, which returns the computed value
  and the details mapping, wraps the pair and writes it into the container under
  \<^verbatim>\<open>$parameter.<name>\<close>, merging \<^verbatim>\<open>num_batches\<close> and the metric configuration (here
  \<open>bookkeeping\<close>) into the details. An error of \<^verbatim>\<open>_build_parameters\<close> propagates before
  anything is written. The result pairs the outcome with the store as the call leaves it.
\<close>

definition build_parameters ::
  "builder \<Rightarrow> nat \<Rightarrow> env \<Rightarrow> (string \<times> pyval) list \<Rightarrow> store \<Rightarrow> (error + unit) \<times> store" where
  "build_parameters self parameter_container e bookkeeping st =
     (case build_parameters_impl self parameter_container e of
        Inl err \<Rightarrow> (Inl err, st)
      | Inr (computed_value, computed_details) \<Rightarrow>
          (Inr (),
           st(parameter_container :=
                write_node (split_dots (fully_qualified_parameter_name self))
                  \<lparr>value = computed_value,
                   details = AList.merge computed_details bookkeeping\<rparr>
                  (st parameter_container))))"

section \<open>The union of the values of several batches\<close>

text \<open>An inner iterable of the value-set builder: a list or a set.\<close>

datatype 'a iterable = IterList "'a list" | IterSet "'a set"

fun elements :: "'a iterable \<Rightarrow> 'a set" where
  "elements (IterList xs) = set xs"
| "elements (IterSet S) = S"

text \<open>
  Modelled from the spec: \<^verbatim>\<open>_get_unique_values_from_iterable_of_iterables\<close> of
  \<^verbatim>\<open>value_set_multi_batch_parameter_builder.py\<close> is not in the source, only its test is. It
  flattens a sequence of per-batch iterables (lists or sets) into a single set by
  iterated union.
\<close>

definition get_unique_values_from_iterable_of_iterables :: "'a iterable list \<Rightarrow> 'a set" where
  "get_unique_values_from_iterable_of_iterables iterable_of_iterables =
     fold (\<lambda>it acc. acc \<union> elements it) iterable_of_iterables {}"

section \<open>A small metric collaborator for concrete runs\<close>

text \<open>
  The concrete environment used to run the model: a namespace with three entries, a
  \<^verbatim>\<open>get_metrics\<close> that serves the non-null counts of the batches and, for a fanned-out
  request, the unexpected counts of each format from a table, and a set iteration that
  follows the order of that table.
\<close>

definition demo_lookup :: "string \<Rightarrow> pyval option" where
  "demo_lookup s =
     (if s = ''$variables.threshold'' then Some (PyFloat (Finite 1))
      else if s = ''$variables.kwargs'' then Some (PyDict [(''mostly'', PyFloat (Finite 1))])
      else if s = ''$domain.domain_kwargs'' then Some (PyDict [(''column'', PyStr ''pickup_datetime'')])
      else None)"

definition demo_arm :: "(string \<times> int list) list \<Rightarrow> pyval \<Rightarrow> attributed_resolved_metrics" where
  "demo_arm unexpected kw =
     (case kw of
        PyDict d \<Rightarrow>
          \<lparr>metric_attributes = d,
           arm_metric_values =
             (case map_of d ''strftime_format'' of
                Some (PyStr f) \<Rightarrow>
                  (case map_of unexpected f of Some ns \<Rightarrow> map (\<lambda>n. [n]) ns | None \<Rightarrow> [])
              | _ \<Rightarrow> [])\<rparr>
      | _ \<Rightarrow> \<lparr>metric_attributes = [], arm_metric_values = []\<rparr>)"

definition demo_metrics ::
  "int list \<Rightarrow> (string \<times> int list) list \<Rightarrow> string \<Rightarrow> pyval \<Rightarrow> value_kwargs \<Rightarrow> error + metric_values" where
  "demo_metrics nonnull unexpected metric_name domain_kwargs vk =
     (case vk of
        Single v \<Rightarrow> Inr (Array2D (map (\<lambda>n. [n]) nonnull))
      | FanOut kws \<Rightarrow> Inr (Attributed (map (demo_arm unexpected) kws)))"

definition demo_env :: "int list \<Rightarrow> (string \<times> int list) list \<Rightarrow> env" where
  "demo_env nonnull unexpected =
     \<lparr>lookup = demo_lookup,
      get_metrics = demo_metrics nonnull unexpected,
      set_iter = (\<lambda>S. filter (\<lambda>f. f \<in> S) (map fst unexpected))\<rparr>"

definition demo_builder :: "pyval \<Rightarrow> pyval \<Rightarrow> builder" where
  "demo_builder cands thr =
     \<lparr>name = ''my_date_format'',
      metric_domain_kwargs = PyStr ''$domain.domain_kwargs'',
      metric_value_kwargs = PyNone,
      threshold = thr,
      candidate_strings = cands\<rparr>"


lemmas demo_defs = demo_lookup_def demo_arm_def demo_metrics_def demo_env_def demo_builder_def
  format_string_success_ratios_def nonnull_count_def resolved_candidate_strings_def
  candidate_set_of_def unexpected_count_metrics_def resolved_threshold_def
  get_parameter_value_and_validate_return_type_def is_reference_def column0_def py_sum_def
  np_true_divide_def success_ratio_entry_def float_le_def
  match_strftime_metric_value_kwargs_def

section \<open>The order of floats\<close>

text \<open>
  Facts about the two comparisons: \<^verbatim>\<open>nan\<close> is never related, and on the other values
  they are the strict and the reflexive part of one total order.
\<close>

lemma float_less_not_NaN: "float_less a b \<Longrightarrow> a \<noteq> NaN \<and> b \<noteq> NaN"
  by (cases a; cases b) simp_all

lemma float_le_not_NaN: "float_le a b \<Longrightarrow> a \<noteq> NaN \<and> b \<noteq> NaN"
  by (simp add: float_le_def)

lemma float_less_trans: "float_less a b \<Longrightarrow> float_less b c \<Longrightarrow> float_less a c"
  by (cases a; cases b; cases c) simp_all


lemma float_le_less_trans: "float_le a b \<Longrightarrow> float_less b c \<Longrightarrow> float_less a c"
  using float_less_trans by (auto simp: float_le_def)

lemma float_not_less_imp_le: "a \<noteq> NaN \<Longrightarrow> b \<noteq> NaN \<Longrightarrow> \<not> float_less a b \<Longrightarrow> float_le b a"
  by (cases a; cases b) (auto simp: float_le_def)

lemma float_less_irrefl: "\<not> float_less a a"
  by (cases a) simp_all


section \<open>The selection of the best format string\<close>

text \<open>The running best stays as it is when no item is both above it and at the threshold.\<close>

lemma best_loop_keep:
  "\<forall>kv\<in>set items. \<not> (float_less br (snd kv) \<and> float_le t (snd kv)) \<Longrightarrow>
   best_loop t items (b, br) = (b, br)"
  by (induction items) auto

text \<open>
  Otherwise the loop ends on the first item of greatest ratio among the items that reach
  the threshold: every such item before it is strictly smaller, none after it is greater.
\<close>

lemma best_loop_first_max:
  "br \<noteq> NaN \<Longrightarrow> \<exists>kv\<in>set items. float_less br (snd kv) \<and> float_le t (snd kv) \<Longrightarrow>
   \<exists>pre f r post. items = pre @ (f, r) # post \<and> best_loop t items (b, br) = (f, r)
      \<and> float_less br r \<and> float_le t r
      \<and> (\<forall>kv\<in>set pre. float_le t (snd kv) \<longrightarrow> float_less (snd kv) r)
      \<and> (\<forall>kv\<in>set post. float_le t (snd kv) \<longrightarrow> float_le (snd kv) r)"
proof (induction items arbitrary: b br)
  case Nil
  then show ?case by simp
next
  case (Cons x xs)
  obtain f r where x: "x = (f, r)" by (cases x)
  show ?case
  proof (cases "float_less br r \<and> float_le t r")
    case True
    then have rn: "r \<noteq> NaN" using float_less_not_NaN by blast
    show ?thesis
    proof (cases "\<exists>kv\<in>set xs. float_less r (snd kv) \<and> float_le t (snd kv)")
      case ex: True
      from Cons.IH[OF rn ex, of f] obtain pre f' r' post where
        h: "xs = pre @ (f', r') # post" "best_loop t xs (f, r) = (f', r')"
           "float_less r r'" "float_le t r'"
           "\<forall>kv\<in>set pre. float_le t (snd kv) \<longrightarrow> float_less (snd kv) r'"
           "\<forall>kv\<in>set post. float_le t (snd kv) \<longrightarrow> float_le (snd kv) r'"
        by blast
      have "x # xs = (x # pre) @ (f', r') # post" using h(1) by simp
      moreover have "best_loop t (x # xs) (b, br) = (f', r')" using True h(2) x by simp
      moreover have "float_less br r'" using True h(3) float_less_trans by blast
      moreover have "\<forall>kv\<in>set (x # pre). float_le t (snd kv) \<longrightarrow> float_less (snd kv) r'"
        using h(3) h(5) x by simp
      ultimately show ?thesis using h(4) h(6) by blast
    next
      case nex: False
      have "best_loop t xs (f, r) = (f, r)" using nex by (intro best_loop_keep) blast
      then have "best_loop t (x # xs) (b, br) = (f, r)" using True x by simp
      moreover have "x # xs = [] @ (f, r) # xs" using x by simp
      moreover have "\<forall>kv\<in>set xs. float_le t (snd kv) \<longrightarrow> float_le (snd kv) r"
      proof (intro ballI impI)
        fix kv assume kv: "kv \<in> set xs" and q: "float_le t (snd kv)"
        then have "\<not> float_less r (snd kv)" using nex by blast
        moreover have "snd kv \<noteq> NaN" using q float_le_not_NaN by blast
        ultimately show "float_le (snd kv) r" using rn float_not_less_imp_le by blast
      qed
      ultimately show ?thesis using True by (metis empty_iff list.set(1))
    qed
  next
    case False
    then have ex: "\<exists>kv\<in>set xs. float_less br (snd kv) \<and> float_le t (snd kv)"
      using Cons.prems(2) x by auto
    from Cons.IH[OF Cons.prems(1) ex, of b] obtain pre f' r' post where
      h: "xs = pre @ (f', r') # post" "best_loop t xs (b, br) = (f', r')"
         "float_less br r'" "float_le t r'"
         "\<forall>kv\<in>set pre. float_le t (snd kv) \<longrightarrow> float_less (snd kv) r'"
         "\<forall>kv\<in>set post. float_le t (snd kv) \<longrightarrow> float_le (snd kv) r'"
      by blast
    have "x # xs = (x # pre) @ (f', r') # post" using h(1) by simp
    moreover have "best_loop t (x # xs) (b, br) = (f', r')" using False h(2) x by auto
    moreover have "float_less r r'" if q: "float_le t r"
    proof -
      have "\<not> float_less br r" using False q by blast
      moreover have "r \<noteq> NaN" using q float_le_not_NaN by blast
      ultimately have "float_le r br" using Cons.prems(1) float_not_less_imp_le by blast
      then show ?thesis using h(3) float_le_less_trans by blast
    qed
    then have "\<forall>kv\<in>set (x # pre). float_le t (snd kv) \<longrightarrow> float_less (snd kv) r'"
      using h(5) x by auto
    ultimately show ?thesis using h(3) h(4) h(6) by blast
  qed
qed

text \<open>
  C1, as the code has it. When the dictionary of success ratios was built and some
  candidate has a ratio that is greater than 0.0 and at least the resolved threshold,
  \<^verbatim>\<open>_build_parameters\<close> returns the candidate of greatest ratio among those at or above
  the threshold, with that ratio as \<^verbatim>\<open>success_ratio\<close>; among candidates of equal greatest
  ratio it is the first in the iteration order of the dictionary. The returned ratio is at
  least the threshold, so with threshold 1.0 a candidate of ratio 0.9999 is never returned.
  With a positive total non-null count every ratio is a real number and the comparisons
  are those of the reals.
\<close>

theorem best_fit_selected:
  assumes "format_string_success_ratios self e = Inr ratios"
      and "resolved_threshold self e = Inr t"
      and "\<exists>kv\<in>set ratios. float_less (Finite 0) (snd kv) \<and> float_le t (snd kv)"
    shows "\<exists>pre f r post. ratios = pre @ (f, r) # post
             \<and> build_parameters_impl self c e = Inr (f, [(''success_ratio'', PyFloat r)])
             \<and> float_less (Finite 0) r \<and> float_le t r
             \<and> (\<forall>kv\<in>set pre. float_le t (snd kv) \<longrightarrow> float_less (snd kv) r)
             \<and> (\<forall>kv\<in>set post. float_le t (snd kv) \<longrightarrow> float_le (snd kv) r)"
proof -
  have "Finite 0 \<noteq> NaN" by simp
  from best_loop_first_max[OF this assms(3), of PyNone] obtain pre f r post where
    h: "ratios = pre @ (f, r) # post" "best_loop t ratios (PyNone, Finite 0) = (f, r)"
       "float_less (Finite 0) r" "float_le t r"
       "\<forall>kv\<in>set pre. float_le t (snd kv) \<longrightarrow> float_less (snd kv) r"
       "\<forall>kv\<in>set post. float_le t (snd kv) \<longrightarrow> float_le (snd kv) r"
    by blast
  have "build_parameters_impl self c e = Inr (f, [(''success_ratio'', PyFloat r)])"
    using assms(1,2) h(2) by (simp add: build_parameters_impl_def)
  then show ?thesis using h by blast
qed

text \<open>
  A run of C1 at the threshold boundary: 10000 non-null values in two batches, the
  threshold 1.0 read from \<^verbatim>\<open>$variables.threshold\<close>. The format seen first fails on one
  value (ratio 0.9999) and is rejected; the format that matches every value is returned.
\<close>

theorem best_fit_selected_witness:
  "format_string_success_ratios
       (demo_builder (PyList [''%m-%d-%Y'', ''%Y-%m-%d'', ''%m-%d-%Y'']) (PyStr ''$variables.threshold''))
       (demo_env [6000, 4000] [(''%m-%d-%Y'', [1, 0]), (''%Y-%m-%d'', [0, 0])])
     = Inr [(PyStr ''%m-%d-%Y'', Finite (9999 / 10000)), (PyStr ''%Y-%m-%d'', Finite 1)]
   \<and> resolved_threshold
       (demo_builder (PyList [''%m-%d-%Y'', ''%Y-%m-%d'', ''%m-%d-%Y'']) (PyStr ''$variables.threshold''))
       (demo_env [6000, 4000] [(''%m-%d-%Y'', [1, 0]), (''%Y-%m-%d'', [0, 0])])
     = Inr (Finite 1)
   \<and> build_parameters_impl
       (demo_builder (PyList [''%m-%d-%Y'', ''%Y-%m-%d'', ''%m-%d-%Y'']) (PyStr ''$variables.threshold''))
       PyNone
       (demo_env [6000, 4000] [(''%m-%d-%Y'', [1, 0]), (''%Y-%m-%d'', [0, 0])])
     = Inr (PyStr ''%Y-%m-%d'', [(''success_ratio'', PyFloat (Finite 1))])"
proof -
  let ?b = "demo_builder (PyList [''%m-%d-%Y'', ''%Y-%m-%d'', ''%m-%d-%Y'']) (PyStr ''$variables.threshold'')"
  let ?e = "demo_env [6000, 4000] [(''%m-%d-%Y'', [1, 0]), (''%Y-%m-%d'', [0, 0])]"
  let ?ratios = "[(PyStr ''%m-%d-%Y'', Finite (9999 / 10000)), (PyStr ''%Y-%m-%d'', Finite 1)]"
  have h1: "format_string_success_ratios ?b ?e = Inr ?ratios" by (simp add: demo_defs)
  have h2: "resolved_threshold ?b ?e = Inr (Finite 1)" by (simp add: demo_defs)
  have h3: "\<exists>kv\<in>set ?ratios. float_less (Finite 0) (snd kv) \<and> float_le (Finite 1) (snd kv)"
    by (simp add: float_le_def)
  from best_fit_selected[OF h1 h2 h3, of PyNone] obtain pre f r post where
    h: "?ratios = pre @ (f, r) # post"
       "build_parameters_impl ?b PyNone ?e = Inr (f, [(''success_ratio'', PyFloat r)])"
       "float_le (Finite 1) r"
    by blast
  from h(1,3) have "(f, r) = (PyStr ''%Y-%m-%d'', Finite 1)"
    by (auto simp: Cons_eq_append_conv float_le_def)
  with h(2) h1 h2 show ?thesis by simp
qed

text \<open>
  C1 as the specification words it fails when the threshold is 0.0: three non-null values,
  none of which matches the only candidate. Its ratio 0.0 reaches the threshold 0.0 and is
  the greatest there is, yet the candidate is not returned.
\<close>

theorem best_fit_zero_ratio_counterexample:
  "format_string_success_ratios (demo_builder (PyList [''%Y-%m-%d'']) (PyFloat (Finite 0)))
       (demo_env [2, 1] [(''%Y-%m-%d'', [2, 1])]) = Inr [(PyStr ''%Y-%m-%d'', Finite 0)]
   \<and> resolved_threshold (demo_builder (PyList [''%Y-%m-%d'']) (PyFloat (Finite 0)))
       (demo_env [2, 1] [(''%Y-%m-%d'', [2, 1])]) = Inr (Finite 0)
   \<and> build_parameters_impl (demo_builder (PyList [''%Y-%m-%d'']) (PyFloat (Finite 0))) PyNone
       (demo_env [2, 1] [(''%Y-%m-%d'', [2, 1])])
     = Inr (PyNone, [(''success_ratio'', PyFloat (Finite 0))])"
  by (simp add: demo_defs build_parameters_impl_def)

text \<open>
  C2. When no candidate's success ratio reaches the resolved threshold,
  \<^verbatim>\<open>_build_parameters\<close> returns the pair \<^verbatim>\<open>(None, {"success_ratio": 0.0})\<close>: a value,
  not an error. A ratio that is \<^verbatim>\<open>nan\<close> reaches no threshold.
\<close>

theorem no_match_result:
  assumes "format_string_success_ratios self e = Inr ratios"
      and "resolved_threshold self e = Inr t"
      and "\<forall>kv\<in>set ratios. \<not> float_le t (snd kv)"
    shows "build_parameters_impl self c e = Inr (PyNone, [(''success_ratio'', PyFloat (Finite 0))])"
proof -
  have "\<forall>kv\<in>set ratios. \<not> (float_less (Finite 0) (snd kv) \<and> float_le t (snd kv))"
    using assms(3) by auto
  then have "best_loop t ratios (PyNone, Finite 0) = (PyNone, Finite 0)" by (rule best_loop_keep)
  then show ?thesis using assms(1,2) by (simp add: build_parameters_impl_def)
qed

text \<open>A run of C2: ratios 0.0 and 0.7 against the threshold 0.75.\<close>

theorem no_match_result_witness:
  "format_string_success_ratios
       (demo_builder (PyList [''%m-%d-%Y'', ''%H:%M:%S'']) (PyFloat (Finite (3 / 4))))
       (demo_env [5, 5] [(''%H:%M:%S'', [5, 5]), (''%m-%d-%Y'', [2, 1])])
     = Inr [(PyStr ''%H:%M:%S'', Finite 0), (PyStr ''%m-%d-%Y'', Finite (7 / 10))]
   \<and> resolved_threshold
       (demo_builder (PyList [''%m-%d-%Y'', ''%H:%M:%S'']) (PyFloat (Finite (3 / 4))))
       (demo_env [5, 5] [(''%H:%M:%S'', [5, 5]), (''%m-%d-%Y'', [2, 1])])
     = Inr (Finite (3 / 4))
   \<and> build_parameters_impl
       (demo_builder (PyList [''%m-%d-%Y'', ''%H:%M:%S'']) (PyFloat (Finite (3 / 4)))) PyNone
       (demo_env [5, 5] [(''%H:%M:%S'', [5, 5]), (''%m-%d-%Y'', [2, 1])])
     = Inr (PyNone, [(''success_ratio'', PyFloat (Finite 0))])"
proof -
  let ?b = "demo_builder (PyList [''%m-%d-%Y'', ''%H:%M:%S'']) (PyFloat (Finite (3 / 4)))"
  let ?e = "demo_env [5, 5] [(''%H:%M:%S'', [5, 5]), (''%m-%d-%Y'', [2, 1])]"
  let ?ratios = "[(PyStr ''%H:%M:%S'', Finite 0), (PyStr ''%m-%d-%Y'', Finite (7 / 10))]"
  have h1: "format_string_success_ratios ?b ?e = Inr ?ratios" by (simp add: demo_defs)
  have h2: "resolved_threshold ?b ?e = Inr (Finite (3 / 4))" by (simp add: demo_defs)
  have h3: "\<forall>kv\<in>set ?ratios. \<not> float_le (Finite (3 / 4)) (snd kv)" by (simp add: float_le_def)
  show ?thesis using no_match_result[OF h1 h2 h3, of PyNone] h1 h2 by simp
qed

text \<open>
  C10. When every candidate's success ratio is exactly 0.0, \<^verbatim>\<open>_build_parameters\<close>
  returns \<^verbatim>\<open>(None, {"success_ratio": 0.0})\<close> whatever the resolved threshold is, also
  for the threshold 0.0 that every candidate reaches: the running best starts at 0.0 and
  moves only to a strictly greater ratio.
\<close>

theorem all_zero_ratios_never_selected:
  assumes "format_string_success_ratios self e = Inr ratios"
      and "resolved_threshold self e = Inr t"
      and "\<forall>kv\<in>set ratios. snd kv = Finite 0"
    shows "build_parameters_impl self c e = Inr (PyNone, [(''success_ratio'', PyFloat (Finite 0))])"
proof -
  have "\<forall>kv\<in>set ratios. \<not> (float_less (Finite 0) (snd kv) \<and> float_le t (snd kv))"
    using assms(3) by auto
  then have "best_loop t ratios (PyNone, Finite 0) = (PyNone, Finite 0)" by (rule best_loop_keep)
  then show ?thesis using assms(1,2) by (simp add: build_parameters_impl_def)
qed

text \<open>A run of C10: two candidates that match nothing, threshold 0.0.\<close>

theorem all_zero_ratios_never_selected_witness:
  "format_string_success_ratios
       (demo_builder (PyList [''%y-%m-%d'', ''%H:%M:%S'']) (PyFloat (Finite 0)))
       (demo_env [4, 3] [(''%y-%m-%d'', [4, 3]), (''%H:%M:%S'', [3, 4])])
     = Inr [(PyStr ''%y-%m-%d'', Finite 0), (PyStr ''%H:%M:%S'', Finite 0)]
   \<and> resolved_threshold
       (demo_builder (PyList [''%y-%m-%d'', ''%H:%M:%S'']) (PyFloat (Finite 0)))
       (demo_env [4, 3] [(''%y-%m-%d'', [4, 3]), (''%H:%M:%S'', [3, 4])])
     = Inr (Finite 0)
   \<and> build_parameters_impl
       (demo_builder (PyList [''%y-%m-%d'', ''%H:%M:%S'']) (PyFloat (Finite 0))) PyNone
       (demo_env [4, 3] [(''%y-%m-%d'', [4, 3]), (''%H:%M:%S'', [3, 4])])
     = Inr (PyNone, [(''success_ratio'', PyFloat (Finite 0))])"
proof -
  let ?b = "demo_builder (PyList [''%y-%m-%d'', ''%H:%M:%S'']) (PyFloat (Finite 0))"
  let ?e = "demo_env [4, 3] [(''%y-%m-%d'', [4, 3]), (''%H:%M:%S'', [3, 4])]"
  let ?ratios = "[(PyStr ''%y-%m-%d'', Finite 0), (PyStr ''%H:%M:%S'', Finite 0)]"
  have h1: "format_string_success_ratios ?b ?e = Inr ?ratios" by (simp add: demo_defs)
  have h2: "resolved_threshold ?b ?e = Inr (Finite 0)" by (simp add: demo_defs)
  have h3: "\<forall>kv\<in>set ?ratios. snd kv = Finite 0" by simp
  show ?thesis using all_zero_ratios_never_selected[OF h1 h2 h3, of PyNone] h1 h2 by simp
qed

section \<open>The success ratios\<close>

text \<open>
  One round of the loop over a well-formed entry, when the non-null count is a numpy
  scalar: the ratio is numpy's quotient, stored under the entry's format.
\<close>

lemma num_value_py_sum: "num_value (py_sum xs) = sum_list xs"
  by (simp add: py_sum_def)

lemma success_ratio_entry_numpy:
  assumes "well_formed_arm arm"
  shows "success_ratio_entry (NpInt n) arm =
         Inr (the (map_of (metric_attributes arm) ''strftime_format''),
              np_true_divide (n - sum_list (map hd (arm_metric_values arm))) n)"
  using assms
  by (auto simp: well_formed_arm_def success_ratio_entry_def column0_def num_value_py_sum
           split: option.splits)

text \<open>
  When every round succeeds the loop returns a dictionary; a format whose entries all have
  the ratio \<open>r\<close> is mapped to \<open>r\<close>, and a format with no entry keeps what it had.
\<close>

lemma success_ratios_loop_map_of:
  assumes "\<forall>arm\<in>set arms. \<exists>kr. success_ratio_entry nn arm = Inr kr"
  shows "\<exists>ratios. success_ratios_loop nn arms acc = Inr ratios \<and>
     (\<forall>key r. (\<forall>arm\<in>set arms. \<forall>r'. success_ratio_entry nn arm = Inr (key, r') \<longrightarrow> r' = r) \<longrightarrow>
        map_of ratios key =
          (if \<exists>arm\<in>set arms. \<exists>r'. success_ratio_entry nn arm = Inr (key, r')
           then Some r else map_of acc key))"
  using assms
proof (induction arms arbitrary: acc)
  case Nil
  then show ?case by simp
next
  case (Cons a as)
  from Cons.prems obtain k0 r0 where a: "success_ratio_entry nn a = Inr (k0, r0)" by fastforce
  have rest: "\<forall>arm\<in>set as. \<exists>kr. success_ratio_entry nn arm = Inr kr" using Cons.prems by simp
  from Cons.IH[OF rest, of "AList.update k0 r0 acc"] obtain ratios where
    r: "success_ratios_loop nn as (AList.update k0 r0 acc) = Inr ratios"
    and m: "\<And>key r. (\<forall>arm\<in>set as. \<forall>r'. success_ratio_entry nn arm = Inr (key, r') \<longrightarrow> r' = r) \<Longrightarrow>
        map_of ratios key =
          (if \<exists>arm\<in>set as. \<exists>r'. success_ratio_entry nn arm = Inr (key, r')
           then Some r else map_of (AList.update k0 r0 acc) key)"
    by blast
  have "success_ratios_loop nn (a # as) acc = Inr ratios" using a r by simp
  moreover have "map_of ratios key =
          (if \<exists>arm\<in>set (a # as). \<exists>r'. success_ratio_entry nn arm = Inr (key, r')
           then Some r else map_of acc key)"
    if h: "\<forall>arm\<in>set (a # as). \<forall>r'. success_ratio_entry nn arm = Inr (key, r') \<longrightarrow> r' = r"
    for key r
  proof -
    have "\<forall>arm\<in>set as. \<forall>r'. success_ratio_entry nn arm = Inr (key, r') \<longrightarrow> r' = r"
      using h by simp
    from m[OF this] show ?thesis using h a by (auto simp: AList.update_conv')
  qed
  ultimately show ?case by blast
qed

text \<open>Every item of the dictionary was there before or comes from a round of the loop.\<close>

lemma success_ratios_loop_values:
  "success_ratios_loop nn arms acc = Inr ratios \<Longrightarrow>
   \<forall>kv\<in>set ratios. kv \<in> set acc \<or> (\<exists>arm\<in>set arms. success_ratio_entry nn arm = Inr kv)"
proof (induction arms arbitrary: acc)
  case Nil
  then show ?case by simp
next
  case (Cons a as)
  from Cons.prems obtain k0 r0 where a: "success_ratio_entry nn a = Inr (k0, r0)"
    and r: "success_ratios_loop nn as (AList.update k0 r0 acc) = Inr ratios"
    by (auto split: sum.splits)
  have sub: "set (AList.update k0 r0 acc) \<subseteq> insert (k0, r0) (set acc)"
    by (induction acc) auto
  show ?case
  proof
    fix kv assume "kv \<in> set ratios"
    with Cons.IH[OF r] have "kv \<in> set (AList.update k0 r0 acc)
        \<or> (\<exists>arm\<in>set as. success_ratio_entry nn arm = Inr kv)" by blast
    then show "kv \<in> set acc \<or> (\<exists>arm\<in>set (a # as). success_ratio_entry nn arm = Inr kv)"
      using sub a by auto
  qed
qed

text \<open>The list of value kwargs has one dictionary for each format iterated over.\<close>

lemma kwargs_list_length:
  "match_strftime_metric_value_kwargs_list self fmts = Inr kws \<Longrightarrow> length kws = length fmts"
  by (induction fmts arbitrary: kws) (auto split: sum.splits)

text \<open>
  C6. With a positive total non-null count, the ratio that \<^verbatim>\<open>_build_parameters\<close> stores
  for a candidate format is (total non-null count - unexpected count of the candidate) /
  total non-null count, where the total non-null count is the sum over the batches (rows)
  of the non-null-count metric and the unexpected count is the sum over the batches of the
  candidate's unexpected-count metric.
\<close>

theorem success_ratio_formula:
  assumes "get_metrics e ''column_values.nonnull.count'' (metric_domain_kwargs self)
             (Single (metric_value_kwargs self)) = Inr (Array2D nonnull)"
      and "[] \<notin> set nonnull"
      and "0 < sum_list (map hd nonnull)"
      and "resolved_candidate_strings self e = Inr cands"
      and "match_strftime_metric_value_kwargs_list self (set_iter e cands) = Inr kws"
      and "unexpected_count_metrics self e kws = Inr arms"
      and "\<forall>a\<in>set arms. well_formed_arm a"
      and "arm \<in> set arms"
      and "map_of (metric_attributes arm) ''strftime_format'' = Some key"
      and "\<forall>a\<in>set arms. map_of (metric_attributes a) ''strftime_format'' = Some key \<longrightarrow>
             arm_metric_values a = arm_metric_values arm"
    shows "\<exists>ratios. format_string_success_ratios self e = Inr ratios \<and>
             map_of ratios key =
               Some (Finite
                 (real_of_int (sum_list (map hd nonnull) - sum_list (map hd (arm_metric_values arm)))
                  / real_of_int (sum_list (map hd nonnull))))"
proof -
  let ?n = "sum_list (map hd nonnull)"
  let ?r = "Finite (real_of_int (?n - sum_list (map hd (arm_metric_values arm))) / real_of_int ?n)"
  have "map hd nonnull \<noteq> []" using assms(3) by auto
  then have nn: "nonnull_count self e = Inr (NpInt ?n)"
    using assms(1,2) by (simp add: nonnull_count_def column0_def py_sum_def)
  have ne: "?n \<noteq> 0" using assms(3) by simp
  have entry: "success_ratio_entry (NpInt ?n) a =
         Inr (the (map_of (metric_attributes a) ''strftime_format''),
              Finite (real_of_int (?n - sum_list (map hd (arm_metric_values a))) / real_of_int ?n))"
    if "a \<in> set arms" for a
    using success_ratio_entry_numpy[of a ?n] assms(7) that ne by (simp add: np_true_divide_def)
  then have ok: "\<forall>a\<in>set arms. \<exists>kr. success_ratio_entry (NpInt ?n) a = Inr kr" by blast
  from success_ratios_loop_map_of[OF ok, of "[]"] obtain ratios where
    r: "success_ratios_loop (NpInt ?n) arms [] = Inr ratios"
    and m: "\<And>key r. (\<forall>a\<in>set arms. \<forall>r'. success_ratio_entry (NpInt ?n) a = Inr (key, r') \<longrightarrow> r' = r) \<Longrightarrow>
        map_of ratios key =
          (if \<exists>a\<in>set arms. \<exists>r'. success_ratio_entry (NpInt ?n) a = Inr (key, r')
           then Some r else map_of [] key)"
    by blast
  have same: "\<forall>a\<in>set arms. \<forall>r'. success_ratio_entry (NpInt ?n) a = Inr (key, r') \<longrightarrow> r' = ?r"
  proof (intro ballI allI impI)
    fix a r' assume a: "a \<in> set arms" and e: "success_ratio_entry (NpInt ?n) a = Inr (key, r')"
    from entry[OF a] e have k: "the (map_of (metric_attributes a) ''strftime_format'') = key"
      and r': "r' = Finite (real_of_int (?n - sum_list (map hd (arm_metric_values a))) / real_of_int ?n)"
      by simp_all
    have "map_of (metric_attributes a) ''strftime_format'' = Some key"
      using assms(7) a k by (auto simp: well_formed_arm_def split: option.splits)
    then have "arm_metric_values a = arm_metric_values arm" using assms(10) a by blast
    then show "r' = ?r" using r' by simp
  qed
  have "success_ratio_entry (NpInt ?n) arm = Inr (key, ?r)"
    using entry[OF assms(8)] assms(9) by simp
  then have "\<exists>a\<in>set arms. \<exists>r'. success_ratio_entry (NpInt ?n) a = Inr (key, r')"
    using assms(8) by blast
  with m[OF same] have "map_of ratios key = Some ?r" by simp
  moreover have "format_string_success_ratios self e = Inr ratios"
    using nn assms(4,5,6) r by (simp add: format_string_success_ratios_def)
  ultimately show ?thesis by blast
qed

text \<open>A run of C6: three batches with 10 non-null values, 3 of them unexpected.\<close>

theorem success_ratio_formula_witness:
  "\<exists>ratios. format_string_success_ratios
       (demo_builder (PyList [''%m-%d-%Y'', ''%H:%M:%S'']) (PyFloat (Finite 1)))
       (demo_env [5, 3, 2] [(''%H:%M:%S'', [5, 3, 2]), (''%m-%d-%Y'', [2, 0, 1])]) = Inr ratios
     \<and> map_of ratios (PyStr ''%m-%d-%Y'') = Some (Finite ((10 - 3) / 10))"
proof -
  let ?b = "demo_builder (PyList [''%m-%d-%Y'', ''%H:%M:%S'']) (PyFloat (Finite 1))"
  let ?e = "demo_env [5, 3, 2] [(''%H:%M:%S'', [5, 3, 2]), (''%m-%d-%Y'', [2, 0, 1])]"
  let ?nonnull = "[[5], [3], [2 :: int]]"
  let ?kws = "[PyDict [(''strftime_format'', PyStr ''%H:%M:%S'')], PyDict [(''strftime_format'', PyStr ''%m-%d-%Y'')]]"
  let ?arm = "\<lparr>metric_attributes = [(''strftime_format'', PyStr ''%m-%d-%Y'')], arm_metric_values = [[2], [0], [1]]\<rparr>"
  let ?arms = "[\<lparr>metric_attributes = [(''strftime_format'', PyStr ''%H:%M:%S'')], arm_metric_values = [[5], [3], [2]]\<rparr>, ?arm]"
  have h1: "get_metrics ?e ''column_values.nonnull.count'' (metric_domain_kwargs ?b)
             (Single (metric_value_kwargs ?b)) = Inr (Array2D ?nonnull)"
    by (simp add: demo_defs)
  have h2: "[] \<notin> set ?nonnull" by simp
  have h3: "0 < sum_list (map hd ?nonnull)" by simp
  have h4: "resolved_candidate_strings ?b ?e = Inr {''%m-%d-%Y'', ''%H:%M:%S''}"
    by (simp add: demo_defs)
  have h5: "match_strftime_metric_value_kwargs_list ?b (set_iter ?e {''%m-%d-%Y'', ''%H:%M:%S''}) = Inr ?kws"
    by (simp add: demo_defs)
  have h6: "unexpected_count_metrics ?b ?e ?kws = Inr ?arms" by (simp add: demo_defs)
  have h7: "\<forall>a\<in>set ?arms. well_formed_arm a" by (simp add: well_formed_arm_def)
  have h8: "?arm \<in> set ?arms" by simp
  have h9: "map_of (metric_attributes ?arm) ''strftime_format'' = Some (PyStr ''%m-%d-%Y'')" by simp
  have h10: "\<forall>a\<in>set ?arms. map_of (metric_attributes a) ''strftime_format'' = Some (PyStr ''%m-%d-%Y'') \<longrightarrow>
             arm_metric_values a = arm_metric_values ?arm" by simp
  from success_ratio_formula[OF h1 h2 h3 h4 h5 h6 h7 h8 h9 h10]
  show ?thesis by auto
qed

text \<open>
  C3, as the code has it. When the non-null counts of the batches sum to 0 and the
  candidate set is not empty (the fanned-out request returning a well-formed entry for each
  candidate, with unexpected counts that are not negative), every ratio divides by zero
  with nothing to guard it. With at least one batch the operands are numpy scalars: the
  division raises nothing and gives \<^verbatim>\<open>nan\<close> or minus infinity, no candidate is selected
  and the call returns \<^verbatim>\<open>(None, {"success_ratio": 0.0})\<close>. Only with no batch at all,
  where both sums are the Python int 0, does the call fail with \<^verbatim>\<open>ZeroDivisionError\<close>.
\<close>

theorem zero_nonnull_count_result:
  assumes "get_metrics e ''column_values.nonnull.count'' (metric_domain_kwargs self)
             (Single (metric_value_kwargs self)) = Inr (Array2D nonnull)"
      and "[] \<notin> set nonnull"
      and "sum_list (map hd nonnull) = 0"
      and "resolved_candidate_strings self e = Inr cands"
      and "cands \<noteq> {}"
      and "set (set_iter e cands) = cands"
      and "match_strftime_metric_value_kwargs_list self (set_iter e cands) = Inr kws"
      and "unexpected_count_metrics self e kws = Inr arms"
      and "length arms = length kws"
      and "\<forall>a\<in>set arms. well_formed_arm a"
      and "\<forall>a\<in>set arms. 0 \<le> sum_list (map hd (arm_metric_values a))"
      and "resolved_threshold self e = Inr t"
    shows "(nonnull \<noteq> [] \<longrightarrow>
              build_parameters_impl self c e
                = Inr (PyNone, [(''success_ratio'', PyFloat (Finite 0))]))
         \<and> (nonnull = [] \<and> (\<forall>a\<in>set arms. arm_metric_values a = []) \<longrightarrow>
              build_parameters_impl self c e = Inl ZeroDivisionError)"
proof (intro conjI impI)
  have "set_iter e cands \<noteq> []" using assms(5,6) by auto
  then have ne: "arms \<noteq> []" using kwargs_list_length[OF assms(7)] assms(9) by auto
  {
    assume nz: "nonnull \<noteq> []"
    then have nn: "nonnull_count self e = Inr (NpInt 0)"
      using assms(1,2,3) by (simp add: nonnull_count_def column0_def py_sum_def)
    have entry: "success_ratio_entry (NpInt 0) a =
           Inr (the (map_of (metric_attributes a) ''strftime_format''),
                np_true_divide (0 - sum_list (map hd (arm_metric_values a))) 0)"
      if "a \<in> set arms" for a
      using success_ratio_entry_numpy[of a 0] assms(10) that by simp
    then have ok: "\<forall>a\<in>set arms. \<exists>kr. success_ratio_entry (NpInt 0) a = Inr kr" by blast
    from success_ratios_loop_map_of[OF ok, of "[]"] obtain ratios where
      r: "success_ratios_loop (NpInt 0) arms [] = Inr ratios" by blast
    have fs: "format_string_success_ratios self e = Inr ratios"
      using nn assms(4,7,8) r by (simp add: format_string_success_ratios_def)
    have "\<not> float_less (Finite 0) (snd kv)" if "kv \<in> set ratios" for kv
    proof -
      from success_ratios_loop_values[OF r] that obtain a where
        a: "a \<in> set arms" "success_ratio_entry (NpInt 0) a = Inr kv" by auto
      then have "snd kv = np_true_divide (0 - sum_list (map hd (arm_metric_values a))) 0"
        using entry[OF a(1)] by auto
      moreover have "0 \<le> sum_list (map hd (arm_metric_values a))" using assms(11) a(1) by blast
      ultimately have "snd kv = NaN \<or> snd kv = NegInf" by (auto simp: np_true_divide_def)
      then show ?thesis by auto
    qed
    then have "\<forall>kv\<in>set ratios. \<not> (float_less (Finite 0) (snd kv) \<and> float_le t (snd kv))"
      by blast
    then have "best_loop t ratios (PyNone, Finite 0) = (PyNone, Finite 0)" by (rule best_loop_keep)
    then show "build_parameters_impl self c e
                = Inr (PyNone, [(''success_ratio'', PyFloat (Finite 0))])"
      using fs assms(12) by (simp add: build_parameters_impl_def)
  }
  {
    assume z: "nonnull = [] \<and> (\<forall>a\<in>set arms. arm_metric_values a = [])"
    then have nn: "nonnull_count self e = Inr (PyInt 0)"
      using assms(1) by (simp add: nonnull_count_def column0_def py_sum_def)
    obtain a as where arms: "arms = a # as" using ne by (cases arms) auto
    have "arm_metric_values a = []" using z arms by simp
    then have "success_ratio_entry (PyInt 0) a = Inl ZeroDivisionError"
      by (simp add: success_ratio_entry_def column0_def py_sum_def)
    then have "success_ratios_loop (PyInt 0) arms [] = Inl ZeroDivisionError"
      using arms by simp
    then have "format_string_success_ratios self e = Inl ZeroDivisionError"
      using nn assms(4,7,8) by (simp add: format_string_success_ratios_def)
    then show "build_parameters_impl self c e = Inl ZeroDivisionError"
      by (simp add: build_parameters_impl_def)
  }
qed

text \<open>
  A run of C3: two candidates, once with two batches without a non-null value and once
  without a batch.
\<close>

theorem zero_nonnull_count_result_witness:
  "build_parameters_impl (demo_builder (PyList [''%Y-%m-%d'', ''%H:%M:%S'']) (PyFloat (Finite 1))) PyNone
     (demo_env [0, 0] [(''%Y-%m-%d'', [0, 0]), (''%H:%M:%S'', [0, 0])])
     = Inr (PyNone, [(''success_ratio'', PyFloat (Finite 0))])
   \<and> build_parameters_impl (demo_builder (PyList [''%Y-%m-%d'', ''%H:%M:%S'']) (PyFloat (Finite 1))) PyNone
     (demo_env [] [(''%Y-%m-%d'', []), (''%H:%M:%S'', [])])
     = Inl ZeroDivisionError"
proof -
  let ?b = "demo_builder (PyList [''%Y-%m-%d'', ''%H:%M:%S'']) (PyFloat (Finite 1))"
  let ?e = "demo_env [0, 0] [(''%Y-%m-%d'', [0, 0]), (''%H:%M:%S'', [0, 0])]"
  let ?ez = "demo_env [] [(''%Y-%m-%d'', []), (''%H:%M:%S'', [])]"
  let ?cands = "{''%Y-%m-%d'', ''%H:%M:%S''}"
  let ?kws = "[PyDict [(''strftime_format'', PyStr ''%Y-%m-%d'')], PyDict [(''strftime_format'', PyStr ''%H:%M:%S'')]]"
  let ?arms = "[\<lparr>metric_attributes = [(''strftime_format'', PyStr ''%Y-%m-%d'')], arm_metric_values = [[0], [0]]\<rparr>,
                \<lparr>metric_attributes = [(''strftime_format'', PyStr ''%H:%M:%S'')], arm_metric_values = [[0], [0]]\<rparr>]"
  let ?armsz = "[\<lparr>metric_attributes = [(''strftime_format'', PyStr ''%Y-%m-%d'')], arm_metric_values = []\<rparr>,
                \<lparr>metric_attributes = [(''strftime_format'', PyStr ''%H:%M:%S'')], arm_metric_values = []\<rparr>]"
  have a1: "get_metrics ?e ''column_values.nonnull.count'' (metric_domain_kwargs ?b)
             (Single (metric_value_kwargs ?b)) = Inr (Array2D [[0], [0]])"
    by (simp add: demo_defs)
  have a2: "[] \<notin> set [[0], [0 :: int]]" by simp
  have a3: "sum_list (map hd [[0], [0 :: int]]) = 0" by simp
  have a4: "resolved_candidate_strings ?b ?e = Inr ?cands" by (simp add: demo_defs)
  have a5: "?cands \<noteq> ({} :: string set)" by simp
  have a6: "set (set_iter ?e ?cands) = ?cands" by (auto simp: demo_defs)
  have a7: "match_strftime_metric_value_kwargs_list ?b (set_iter ?e ?cands) = Inr ?kws"
    by (simp add: demo_defs)
  have a8: "unexpected_count_metrics ?b ?e ?kws = Inr ?arms" by (simp add: demo_defs)
  have a9: "length ?arms = length ?kws" by simp
  have a10: "\<forall>a\<in>set ?arms. well_formed_arm a" by (simp add: well_formed_arm_def)
  have a11: "\<forall>a\<in>set ?arms. 0 \<le> sum_list (map hd (arm_metric_values a))" by simp
  have a12: "resolved_threshold ?b ?e = Inr (Finite 1)" by (simp add: demo_defs)
  have b1: "get_metrics ?ez ''column_values.nonnull.count'' (metric_domain_kwargs ?b)
             (Single (metric_value_kwargs ?b)) = Inr (Array2D [])"
    by (simp add: demo_defs)
  have b2: "[] \<notin> set ([] :: int list list)" by simp
  have b3: "sum_list (map hd ([] :: int list list)) = 0" by simp
  have b4: "resolved_candidate_strings ?b ?ez = Inr ?cands" by (simp add: demo_defs)
  have b6: "set (set_iter ?ez ?cands) = ?cands" by (auto simp: demo_defs)
  have b7: "match_strftime_metric_value_kwargs_list ?b (set_iter ?ez ?cands) = Inr ?kws"
    by (simp add: demo_defs)
  have b8: "unexpected_count_metrics ?b ?ez ?kws = Inr ?armsz" by (simp add: demo_defs)
  have b9: "length ?armsz = length ?kws" by simp
  have b10: "\<forall>a\<in>set ?armsz. well_formed_arm a" by (simp add: well_formed_arm_def)
  have b11: "\<forall>a\<in>set ?armsz. 0 \<le> sum_list (map hd (arm_metric_values a))" by simp
  have b12: "resolved_threshold ?b ?ez = Inr (Finite 1)" by (simp add: demo_defs)
  from zero_nonnull_count_result[OF a1 a2 a3 a4 a5 a6 a7 a8 a9 a10 a11 a12, of PyNone]
  have r1: "build_parameters_impl ?b PyNone ?e
              = Inr (PyNone, [(''success_ratio'', PyFloat (Finite 0))])" by simp
  from zero_nonnull_count_result[OF b1 b2 b3 b4 a5 b6 b7 b8 b9 b10 b11 b12, of PyNone]
  have r2: "build_parameters_impl ?b PyNone ?ez = Inl ZeroDivisionError" by simp
  show ?thesis using r1 r2 by (intro conjI)
qed

text \<open>
  C3 as the specification words it, that the call fails, is false for two batches without
  a non-null value and one candidate: the ratio is \<^verbatim>\<open>nan\<close> and the call returns.
\<close>

theorem zero_nonnull_count_counterexample:
  "nonnull_count (demo_builder (PyList [''%Y-%m-%d'']) (PyFloat (Finite 1)))
     (demo_env [0, 0] [(''%Y-%m-%d'', [0, 0])]) = Inr (NpInt 0)
   \<and> resolved_candidate_strings (demo_builder (PyList [''%Y-%m-%d'']) (PyFloat (Finite 1)))
     (demo_env [0, 0] [(''%Y-%m-%d'', [0, 0])]) = Inr {''%Y-%m-%d''}
   \<and> format_string_success_ratios (demo_builder (PyList [''%Y-%m-%d'']) (PyFloat (Finite 1)))
     (demo_env [0, 0] [(''%Y-%m-%d'', [0, 0])]) = Inr [(PyStr ''%Y-%m-%d'', NaN)]
   \<and> build_parameters_impl (demo_builder (PyList [''%Y-%m-%d'']) (PyFloat (Finite 1))) PyNone
     (demo_env [0, 0] [(''%Y-%m-%d'', [0, 0])])
     = Inr (PyNone, [(''success_ratio'', PyFloat (Finite 0))])"
  by (simp add: demo_defs build_parameters_impl_def)

section \<open>The candidate set\<close>

text \<open>The built-in catalog has 54 patterns, all different.\<close>

lemma card_CANDIDATE_STRINGS: "card CANDIDATE_STRINGS = 54"
proof -
  let ?xs = "[
    ''%Y-%m-%d'',
    ''%m-%d-%Y'',
    ''%y-%m-%d'',
    ''%Y-%m-%dT%z'',
    ''%Y-%m-%d %H:%M:%S'',
    ''%Y %b %d %H:%M:%S.%f %Z'',
    ''%b %d %H:%M:%S %z %Y'',
    ''%d/%b/%Y:%H:%M:%S %z'',
    ''%b %d, %Y %H:%M:%S %p'',
    ''%b %d %Y %H:%M:%S'',
    ''%b %d %H:%M:%S %Y'',
    ''%b %d %H:%M:%S %z'',
    ''%b %d %H:%M:%S'',
    ''%Y-%m-%d'T'%H:%M:%S%z'',
    ''%Y-%m-%d'T'%H:%M:%S.%f'%z'' @ [CHR 0x27],
    ''%Y-%m-%d %H:%M:%S %z'',
    ''%Y-%m-%d %H:%M:%S%z'',
    ''%Y-%m-%d %H:%M:%S,%f'',
    ''%Y/%m/%d*%H:%M:%S'',
    ''%Y %b %d %H:%M:%S.%f*%Z'',
    ''%Y %b %d %H:%M:%S.%f'',
    ''%Y-%m-%d %H:%M:%S,%f%z'',
    ''%Y-%m-%d %H:%M:%S.%f'',
    ''%Y-%m-%d %H:%M:%S.%f%z'',
    ''%Y-%m-%d'T'%H:%M:%S.%f'',
    ''%Y-%m-%d'T'%H:%M:%S'',
    ''%Y-%m-%d'T'%H:%M:%S'%z'' @ [CHR 0x27],
    ''%Y-%m-%d*%H:%M:%S:%f'',
    ''%Y-%m-%d*%H:%M:%S'',
    ''%y-%m-%d %H:%M:%S,%f %z'',
    ''%y-%m-%d %H:%M:%S,%f'',
    ''%y-%m-%d %H:%M:%S'',
    ''%y/%m/%d %H:%M:%S'',
    ''%y%m%d %H:%M:%S'',
    ''%Y%m%d %H:%M:%S.%f'',
    ''%m/%d/%y*%H:%M:%S'',
    ''%m/%d/%Y*%H:%M:%S'',
    ''%m/%d/%Y*%H:%M:%S*%f'',
    ''%m/%d/%y %H:%M:%S %z'',
    ''%m/%d/%Y %H:%M:%S %z'',
    ''%H:%M:%S'',
    ''%H:%M:%S.%f'',
    ''%H:%M:%S,%f'',
    ''%d/%b %H:%M:%S,%f'',
    ''%d/%b/%Y:%H:%M:%S'',
    ''%d/%b/%Y %H:%M:%S'',
    ''%d-%b-%Y %H:%M:%S'',
    ''%d-%b-%Y %H:%M:%S.%f'',
    ''%d %b %Y %H:%M:%S'',
    ''%d %b %Y %H:%M:%S*%f'',
    ''%m%d_%H:%M:%S'',
    ''%m%d_%H:%M:%S.%f'',
    ''%m/%d/%Y %H:%M:%S %p:%f'',
    ''%m/%d/%Y %H:%M:%S %p''
  ]"
  have "distinct ?xs" by simp
  then have c: "card (set ?xs) = length ?xs" by (rule distinct_card)
  have l: "length ?xs = 54" by simp
  have s: "CANDIDATE_STRINGS = set ?xs" unfolding CANDIDATE_STRINGS_def list.set ..
  show ?thesis by (simp only: s c l)
qed

text \<open>Each dictionary of the fanned-out request carries its format under \<^verbatim>\<open>"strftime_format"\<close>.\<close>

lemma kwargs_list_formats:
  "match_strftime_metric_value_kwargs_list self fmts = Inr kws \<Longrightarrow>
   map (\<lambda>kw. case kw of PyDict d \<Rightarrow> map_of d ''strftime_format'' | _ \<Rightarrow> None) kws
     = map (\<lambda>f. Some (PyStr f)) fmts"
proof (induction fmts arbitrary: kws)
  case Nil
  then show ?case by simp
next
  case (Cons f fs)
  then show ?case
    by (auto simp: match_strftime_metric_value_kwargs_def AList.update_conv'
             split: sum.splits if_splits pyval.splits)
qed

text \<open>
  C4, as the code has it. After the field \<^verbatim>\<open>candidate_strings\<close> is resolved: a resolved
  value that is a list gives the candidate set \<^verbatim>\<open>set(candidate_strings)\<close>; every other
  resolved value (\<^verbatim>\<open>None\<close>, but also a tuple, a set or a string) gives the built-in
  catalog \<^verbatim>\<open>CANDIDATE_STRINGS\<close> of 54 patterns; and the candidate set is the one used, as
  the fanned-out request asks for exactly the formats iterated over.
\<close>

theorem candidate_set_resolution:
  assumes "get_parameter_value_and_validate_return_type e (candidate_strings self) None = Inr v"
    shows "(\<forall>xs. v = PyList xs \<longrightarrow> resolved_candidate_strings self e = Inr (set xs))
         \<and> ((\<forall>xs. v \<noteq> PyList xs) \<longrightarrow> resolved_candidate_strings self e = Inr CANDIDATE_STRINGS)
         \<and> card CANDIDATE_STRINGS = 54
         \<and> (\<forall>cands kws. resolved_candidate_strings self e = Inr cands
               \<and> match_strftime_metric_value_kwargs_list self (set_iter e cands) = Inr kws
             \<longrightarrow> map (\<lambda>kw. case kw of PyDict d \<Rightarrow> map_of d ''strftime_format'' | _ \<Rightarrow> None) kws
                   = map (\<lambda>f. Some (PyStr f)) (set_iter e cands))"
proof -
  have "resolved_candidate_strings self e = Inr (set xs)" if "v = PyList xs" for xs
    using assms that by (simp add: resolved_candidate_strings_def candidate_set_of_def)
  moreover have "resolved_candidate_strings self e = Inr CANDIDATE_STRINGS" if "\<forall>xs. v \<noteq> PyList xs"
    using assms that by (cases v) (simp_all add: resolved_candidate_strings_def candidate_set_of_def)
  ultimately show ?thesis
    using card_CANDIDATE_STRINGS kwargs_list_formats by blast
qed

text \<open>
  A run of C4: a list with a repeated format resolves to the set of its two formats, and
  \<^verbatim>\<open>None\<close> to the catalog.
\<close>

theorem candidate_set_resolution_witness:
  "resolved_candidate_strings
     (demo_builder (PyList [''%m-%d-%Y'', ''%Y-%m-%d'', ''%m-%d-%Y'']) (PyFloat (Finite 1))) (demo_env [] [])
     = Inr {''%m-%d-%Y'', ''%Y-%m-%d''}
   \<and> resolved_candidate_strings (demo_builder PyNone (PyFloat (Finite 1))) (demo_env [] [])
     = Inr CANDIDATE_STRINGS"
proof -
  let ?e = "demo_env [] []"
  let ?b1 = "demo_builder (PyList [''%m-%d-%Y'', ''%Y-%m-%d'', ''%m-%d-%Y'']) (PyFloat (Finite 1))"
  let ?b2 = "demo_builder PyNone (PyFloat (Finite 1))"
  have h1: "get_parameter_value_and_validate_return_type ?e (candidate_strings ?b1) None
              = Inr (PyList [''%m-%d-%Y'', ''%Y-%m-%d'', ''%m-%d-%Y''])"
    by (simp add: demo_defs)
  have h2: "get_parameter_value_and_validate_return_type ?e (candidate_strings ?b2) None = Inr PyNone"
    by (simp add: demo_defs)
  from candidate_set_resolution[OF h1] candidate_set_resolution[OF h2]
  show ?thesis by auto
qed

text \<open>
  C4 as the specification words it fails for a sequence that is not a list: a tuple of
  formats is replaced by the built-in catalog.
\<close>

theorem tuple_candidates_counterexample:
  "get_parameter_value_and_validate_return_type (demo_env [] [])
       (candidate_strings (demo_builder (PyTuple [''%Y'', ''%Y'']) (PyFloat (Finite 1)))) None
     = Inr (PyTuple [''%Y'', ''%Y''])
   \<and> resolved_candidate_strings (demo_builder (PyTuple [''%Y'', ''%Y'']) (PyFloat (Finite 1))) (demo_env [] [])
     = Inr CANDIDATE_STRINGS
   \<and> CANDIDATE_STRINGS \<noteq> set [''%Y'', ''%Y'']"
proof (intro conjI)
  show "get_parameter_value_and_validate_return_type (demo_env [] [])
       (candidate_strings (demo_builder (PyTuple [''%Y'', ''%Y'']) (PyFloat (Finite 1)))) None
     = Inr (PyTuple [''%Y'', ''%Y''])"
    by (simp add: demo_defs)
  show "resolved_candidate_strings (demo_builder (PyTuple [''%Y'', ''%Y'']) (PyFloat (Finite 1))) (demo_env [] [])
     = Inr CANDIDATE_STRINGS"
    by (simp add: demo_defs)
  have m: "''%H:%M:%S'' \<in> CANDIDATE_STRINGS" by (simp add: CANDIDATE_STRINGS_def)
  have n: "''%H:%M:%S'' \<notin> set [''%Y'', ''%Y'']" by simp
  show "CANDIDATE_STRINGS \<noteq> set [''%Y'', ''%Y'']" using m n by metis
qed

section \<open>Reference strings in the configuration fields\<close>

text \<open>
  A field \<^verbatim>\<open>metric_value_kwargs\<close> that holds a non-empty string, as a reference does, is
  true in the test of line 206 and cannot be unpacked in line 208.
\<close>

lemma reference_kwargs_unpack_fails:
  "metric_value_kwargs self = PyStr s \<Longrightarrow> s \<noteq> [] \<Longrightarrow>
   match_strftime_metric_value_kwargs self fmt_string = Inl TypeError"
  by (simp add: match_strftime_metric_value_kwargs_def)

text \<open>
  C5 on the code. The builder is configured with \<^verbatim>\<open>metric_value_kwargs\<close> =
  \<^verbatim>\<open>"$variables.kwargs"\<close>, one candidate and one batch of three non-null values that all
  match. The resolution utility would resolve the field to the dictionary
  \<^verbatim>\<open>{"mostly": 1.0}\<close>, and with that dictionary given literally the call returns the
  candidate; with the reference the loop of lines 205 to 218 unpacks the raw string and the
  call fails with \<^verbatim>\<open>TypeError\<close>.
\<close>

theorem reference_value_kwargs_used_raw:
  "get_parameter_value_and_validate_return_type (demo_env [3] [(''%Y-%m-%d'', [0])])
       (metric_value_kwargs
          ((demo_builder (PyList [''%Y-%m-%d'']) (PyFloat (Finite 1)))\<lparr>metric_value_kwargs := PyStr ''$variables.kwargs''\<rparr>))
       None
     = Inr (PyDict [(''mostly'', PyFloat (Finite 1))])
   \<and> build_parameters_impl
       ((demo_builder (PyList [''%Y-%m-%d'']) (PyFloat (Finite 1)))\<lparr>metric_value_kwargs := PyDict [(''mostly'', PyFloat (Finite 1))]\<rparr>)
       PyNone (demo_env [3] [(''%Y-%m-%d'', [0])])
     = Inr (PyStr ''%Y-%m-%d'', [(''success_ratio'', PyFloat (Finite 1))])
   \<and> build_parameters_impl
       ((demo_builder (PyList [''%Y-%m-%d'']) (PyFloat (Finite 1)))\<lparr>metric_value_kwargs := PyStr ''$variables.kwargs''\<rparr>)
       PyNone (demo_env [3] [(''%Y-%m-%d'', [0])])
     = Inl TypeError"
  by (simp add: demo_defs build_parameters_impl_def)

section \<open>The union of the values of several batches: properties\<close>

lemma fold_union_elements:
  "fold (\<lambda>it acc. acc \<union> elements it) its A = A \<union> (\<Union>it\<in>set its. elements it)"
  by (induction its arbitrary: A) auto

lemma unique_values_eq_Union:
  "get_unique_values_from_iterable_of_iterables its = \<Union> (elements ` set its)"
  by (simp add: get_unique_values_from_iterable_of_iterables_def fold_union_elements)

text \<open>
  C7. \<^verbatim>\<open>_get_unique_values_from_iterable_of_iterables\<close> returns the union of the elements
  of the inner iterables. Two inputs whose inner iterables have the same element sets, in
  any order, as lists or as sets, with or without repeated elements, give the same result.
  The three inputs of the test file give \<open>{1,2,3,4,5}\<close>, \<open>{1,2,3,4,5}\<close> and \<open>{1}\<close>.
\<close>

theorem unique_values_union:
  "get_unique_values_from_iterable_of_iterables its = \<Union> (elements ` set its)
   \<and> (elements ` set its = elements ` set its' \<longrightarrow>
        get_unique_values_from_iterable_of_iterables its
          = get_unique_values_from_iterable_of_iterables its')
   \<and> get_unique_values_from_iterable_of_iterables [IterList [1, 2, 3], IterList [1, 4, 5]]
        = {1, 2, 3, 4, 5 :: int}
   \<and> get_unique_values_from_iterable_of_iterables [IterSet {1, 2, 3}, IterSet {1, 4, 5}]
        = {1, 2, 3, 4, 5 :: int}
   \<and> get_unique_values_from_iterable_of_iterables [IterList [1], IterList [1]] = {1 :: int}"
proof (intro conjI impI)
  show "get_unique_values_from_iterable_of_iterables its = \<Union> (elements ` set its)"
    by (rule unique_values_eq_Union)
  show "get_unique_values_from_iterable_of_iterables its
          = get_unique_values_from_iterable_of_iterables its'"
    if "elements ` set its = elements ` set its'"
    unfolding unique_values_eq_Union that ..
  show "get_unique_values_from_iterable_of_iterables [IterList [1, 2, 3], IterList [1, 4, 5]]
        = {1, 2, 3, 4, 5 :: int}"
    unfolding unique_values_eq_Union by auto
  show "get_unique_values_from_iterable_of_iterables [IterSet {1, 2, 3}, IterSet {1, 4, 5}]
        = {1, 2, 3, 4, 5 :: int}"
    unfolding unique_values_eq_Union by auto
  show "get_unique_values_from_iterable_of_iterables [IterList [1], IterList [1]] = {1 :: int}"
    unfolding unique_values_eq_Union by auto
qed

text \<open>A run of C7: sets and lists, in another order and with a repeated inner set.\<close>

theorem unique_values_union_witness:
  "elements ` set [IterSet {1, 4, 5}, IterList [1, 2, 3], IterSet {1, 4, 5 :: int}]
     = elements ` set [IterList [1, 2, 3], IterList [1, 4, 5 :: int]]
   \<and> get_unique_values_from_iterable_of_iterables
       [IterSet {1, 4, 5}, IterList [1, 2, 3], IterSet {1, 4, 5 :: int}]
     = {1, 2, 3, 4, 5}"
proof -
  let ?a = "[IterSet {1, 4, 5}, IterList [1, 2, 3], IterSet {1, 4, 5 :: int}]"
  let ?b = "[IterList [1, 2, 3], IterList [1, 4, 5 :: int]]"
  have h: "elements ` set ?a = elements ` set ?b"
    by (simp add: insert_commute)
  from unique_values_union[of ?a ?b]
  have t1: "elements ` set ?a = elements ` set ?b \<longrightarrow>
        get_unique_values_from_iterable_of_iterables ?a
          = get_unique_values_from_iterable_of_iterables ?b"
    by (rule conjunct1[OF conjunct2])
  from unique_values_union[of ?a ?b]
  have t2: "get_unique_values_from_iterable_of_iterables ?b = {1, 2, 3, 4, 5}"
    by (rule conjunct1[OF conjunct2[OF conjunct2]])
  have "get_unique_values_from_iterable_of_iterables ?a = {1, 2, 3, 4, 5}"
    using t1 h t2 by (simp only:)
  then show ?thesis using h by (intro conjI)
qed

section \<open>Two runs on the same inputs\<close>
















section \<open>Writing the parameter container\<close>

text \<open>Nothing can be read from an empty node.\<close>

lemma read_node_empty: "read_node q (Node []) = None"
  by (cases q) simp_all

text \<open>A name that was written reads as the record written.\<close>

lemma read_write_same: "read_node p (write_node p r node) = Some r"
proof (induction p arbitrary: node)
  case Nil
  then show ?case by simp
next
  case (Cons seg segs)
  then show ?case by (cases node) (simp_all add: AList.update_conv')
qed

text \<open>
  A write leaves every name as it was whose path neither begins with the written path
  nor is a beginning of it.
\<close>

lemma read_write_other:
  "\<not> prefix p q \<Longrightarrow> \<not> prefix q p \<Longrightarrow> read_node q (write_node p r node) = read_node q node"
proof (induction p arbitrary: q node)
  case Nil
  then show ?case by simp
next
  case (Cons s ss)
  from Cons.prems(2) obtain t ts where q: "q = t # ts" by (cases q) auto
  show ?case
  proof (cases "t = s")
    case False
    then show ?thesis using q by (cases node) (simp_all add: AList.update_conv')
  next
    case True
    have np: "\<not> prefix ss ts" "\<not> prefix ts ss" using Cons.prems q True by simp_all
    show ?thesis
    proof (cases node)
      case (Leaf old)
      then show ?thesis using q True Cons.IH[OF np] by (simp add: read_node_empty)
    next
      case (Node children)
      then show ?thesis
        using q True Cons.IH[OF np]
        by (simp add: AList.update_conv' read_node_empty split: option.splits)
    qed
  qed
qed

text \<open>The segments of a name without a dot, and of a name up to its first dot.\<close>

lemma split_dots_no_dot: "CHR ''.'' \<notin> set s \<Longrightarrow> split_dots s = [s]"
  by (induction s) auto

lemma split_dots_append_dot:
  "CHR ''.'' \<notin> set a \<Longrightarrow> split_dots (a @ CHR ''.'' # b) = a # split_dots b"
  by (induction a) auto

lemma path_of_plain_name:
  assumes "CHR ''.'' \<notin> set (name self)"
  shows "split_dots (fully_qualified_parameter_name self) = [''$parameter'', name self]"
proof -
  have "fully_qualified_parameter_name self = ''$parameter'' @ CHR ''.'' # name self"
    by (simp add: fully_qualified_parameter_name_def)
  moreover have "CHR ''.'' \<notin> set ''$parameter''" by simp
  ultimately have "split_dots (fully_qualified_parameter_name self)
                     = ''$parameter'' # split_dots (name self)"
    using split_dots_append_dot by metis
  then show ?thesis using split_dots_no_dot[OF assms] by simp
qed

text \<open>
  C9, as the specification's container has it. A call of \<^verbatim>\<open>build_parameters\<close> whose
  \<^verbatim>\<open>_build_parameters\<close> fails leaves the store as it was. A call whose
  \<^verbatim>\<open>_build_parameters\<close> returns the pair of value and details changes the passed
  container only: every other container of the store, such as the one of \<^verbatim>\<open>variables\<close> or
  the containers of other domains in \<^verbatim>\<open>parameters\<close>, is as before. In the passed container
  the name \<^verbatim>\<open>$parameter.<name>\<close> then reads as the whole record (the value, and the details
  merged with the bookkeeping entries), and every name whose dotted path neither begins
  with the written path nor is a beginning of it reads as before. Builders with different
  names without a dot have such paths, so they never disturb each other's entry.
\<close>

theorem build_parameters_writes_own_node:
  "(\<forall>err. build_parameters_impl self pc e = Inl err \<longrightarrow>
       build_parameters self pc e bookkeeping st = (Inl err, st))
   \<and> (\<forall>v d. build_parameters_impl self pc e = Inr (v, d) \<longrightarrow>
       (\<exists>st'. build_parameters self pc e bookkeeping st = (Inr (), st')
          \<and> read_node (split_dots (fully_qualified_parameter_name self)) (st' pc)
              = Some \<lparr>value = v, details = AList.merge d bookkeeping\<rparr>
          \<and> (\<forall>q. \<not> prefix (split_dots (fully_qualified_parameter_name self)) q
                 \<and> \<not> prefix q (split_dots (fully_qualified_parameter_name self))
               \<longrightarrow> read_node q (st' pc) = read_node q (st pc))
          \<and> (\<forall>other_container. other_container \<noteq> pc \<longrightarrow>
                 st' other_container = st other_container)))
   \<and> fully_qualified_parameter_name self = ''$parameter.'' @ name self
   \<and> (\<forall>other :: builder. CHR ''.'' \<notin> set (name self) \<and> CHR ''.'' \<notin> set (name other)
                \<and> name other \<noteq> name self \<longrightarrow>
         \<not> prefix (split_dots (fully_qualified_parameter_name self))
               (split_dots (fully_qualified_parameter_name other))
         \<and> \<not> prefix (split_dots (fully_qualified_parameter_name other))
               (split_dots (fully_qualified_parameter_name self)))"
proof (intro conjI allI impI)
  fix err assume "build_parameters_impl self pc e = Inl err"
  then show "build_parameters self pc e bookkeeping st = (Inl err, st)"
    by (simp add: build_parameters_def)
next
  fix v d assume i: "build_parameters_impl self pc e = Inr (v, d)"
  let ?p = "split_dots (fully_qualified_parameter_name self)"
  let ?r = "\<lparr>value = v, details = AList.merge d bookkeeping\<rparr>"
  let ?st = "st(pc := write_node ?p ?r (st pc))"
  have "build_parameters self pc e bookkeeping st = (Inr (), ?st)"
    using i by (simp add: build_parameters_def)
  moreover have "read_node ?p (?st pc) = Some ?r" by (simp add: read_write_same)
  moreover have "\<forall>q. \<not> prefix ?p q \<and> \<not> prefix q ?p \<longrightarrow> read_node q (?st pc) = read_node q (st pc)"
    by (simp add: read_write_other)
  moreover have "\<forall>other_container. other_container \<noteq> pc \<longrightarrow> ?st other_container = st other_container"
    by simp
  ultimately show "\<exists>st'. build_parameters self pc e bookkeeping st = (Inr (), st')
          \<and> read_node ?p (st' pc) = Some ?r
          \<and> (\<forall>q. \<not> prefix ?p q \<and> \<not> prefix q ?p \<longrightarrow> read_node q (st' pc) = read_node q (st pc))
          \<and> (\<forall>other_container. other_container \<noteq> pc \<longrightarrow>
                 st' other_container = st other_container)"
    by blast
next
  show "fully_qualified_parameter_name self = ''$parameter.'' @ name self"
    by (simp add: fully_qualified_parameter_name_def)
next
  fix other :: builder
  assume a: "CHR ''.'' \<notin> set (name self) \<and> CHR ''.'' \<notin> set (name other)
                \<and> name other \<noteq> name self"
  then have "split_dots (fully_qualified_parameter_name self) = [''$parameter'', name self]"
    and "split_dots (fully_qualified_parameter_name other) = [''$parameter'', name other]"
    using path_of_plain_name by blast+
  then show "\<not> prefix (split_dots (fully_qualified_parameter_name self))
               (split_dots (fully_qualified_parameter_name other))"
    and "\<not> prefix (split_dots (fully_qualified_parameter_name other))
               (split_dots (fully_qualified_parameter_name self))"
    using a by auto
qed

text \<open>
  A run of C9: the containers of the store hold the entry of an earlier builder;
  afterwards the passed container holds that entry unchanged and the new record, and
  another container is as it was.
\<close>

theorem build_parameters_writes_own_node_witness:
  "read_node (split_dots ''$parameter.row_count_range'')
       (snd (build_parameters (demo_builder (PyList [''%Y-%m-%d'']) (PyFloat (Finite 1))) 0
               (demo_env [2, 1] [(''%Y-%m-%d'', [0, 0])]) [(''num_batches'', PyFloat (Finite 2))]
               (\<lambda>a. write_node (split_dots ''$parameter.row_count_range'')
                      \<lparr>value = PyFloat (Finite 3), details = []\<rparr> (Node []))) 0)
     = Some \<lparr>value = PyFloat (Finite 3), details = []\<rparr>
   \<and> read_node (split_dots ''$parameter.my_date_format'')
       (snd (build_parameters (demo_builder (PyList [''%Y-%m-%d'']) (PyFloat (Finite 1))) 0
               (demo_env [2, 1] [(''%Y-%m-%d'', [0, 0])]) [(''num_batches'', PyFloat (Finite 2))]
               (\<lambda>a. write_node (split_dots ''$parameter.row_count_range'')
                      \<lparr>value = PyFloat (Finite 3), details = []\<rparr> (Node []))) 0)
     = Some \<lparr>value = PyStr ''%Y-%m-%d'',
             details = [(''success_ratio'', PyFloat (Finite 1)), (''num_batches'', PyFloat (Finite 2))]\<rparr>
   \<and> snd (build_parameters (demo_builder (PyList [''%Y-%m-%d'']) (PyFloat (Finite 1))) 0
               (demo_env [2, 1] [(''%Y-%m-%d'', [0, 0])]) [(''num_batches'', PyFloat (Finite 2))]
               (\<lambda>a. write_node (split_dots ''$parameter.row_count_range'')
                      \<lparr>value = PyFloat (Finite 3), details = []\<rparr> (Node []))) 1
     = write_node (split_dots ''$parameter.row_count_range'')
         \<lparr>value = PyFloat (Finite 3), details = []\<rparr> (Node [])"
proof -
  let ?e = "demo_env [2, 1] [(''%Y-%m-%d'', [0, 0])]"
  let ?b = "demo_builder (PyList [''%Y-%m-%d'']) (PyFloat (Finite 1))"
  let ?bk = "[(''num_batches'', PyFloat (Finite 2))]"
  let ?old = "\<lparr>value = PyFloat (Finite 3), details = []\<rparr>"
  let ?q = "split_dots ''$parameter.row_count_range''"
  let ?st = "\<lambda>a :: nat. write_node ?q ?old (Node [])"
  have i: "build_parameters_impl ?b (0 :: nat) ?e
              = Inr (PyStr ''%Y-%m-%d'', [(''success_ratio'', PyFloat (Finite 1))])"
    by (simp add: demo_defs build_parameters_impl_def)
  have n: "split_dots (fully_qualified_parameter_name ?b) = [''$parameter'', ''my_date_format'']"
    by (simp add: fully_qualified_parameter_name_def demo_builder_def)
  have q: "?q = [''$parameter'', ''row_count_range'']" by simp
  have m: "split_dots ''$parameter.my_date_format'' = [''$parameter'', ''my_date_format'']" by simp
  from build_parameters_writes_own_node[of ?b 0 ?e ?bk ?st] i obtain st' where
    s: "build_parameters ?b 0 ?e ?bk ?st = (Inr (), st')"
       "read_node (split_dots (fully_qualified_parameter_name ?b)) (st' 0)
          = Some \<lparr>value = PyStr ''%Y-%m-%d'',
                  details = AList.merge [(''success_ratio'', PyFloat (Finite 1))] ?bk\<rparr>"
       "\<forall>q. \<not> prefix (split_dots (fully_qualified_parameter_name ?b)) q
             \<and> \<not> prefix q (split_dots (fully_qualified_parameter_name ?b))
           \<longrightarrow> read_node q (st' 0) = read_node q (?st 0)"
       "\<forall>other_container. other_container \<noteq> 0 \<longrightarrow> st' other_container = ?st other_container"
    by blast
  have "\<not> prefix (split_dots (fully_qualified_parameter_name ?b)) ?q
        \<and> \<not> prefix ?q (split_dots (fully_qualified_parameter_name ?b))"
    unfolding n q by simp
  then have "read_node ?q (st' 0) = read_node ?q (?st 0)" using s(3) by blast
  then have r1: "read_node ?q (st' 0) = Some ?old" by (simp only: read_write_same)
  have r2: "read_node (split_dots ''$parameter.my_date_format'') (st' 0)
          = Some \<lparr>value = PyStr ''%Y-%m-%d'',
               details = [(''success_ratio'', PyFloat (Finite 1)), (''num_batches'', PyFloat (Finite 2))]\<rparr>"
    using s(2) unfolding n m by (simp add: AList.merge_def)
  have r3: "st' 1 = write_node ?q ?old (Node [])" using s(4) by simp
  show ?thesis unfolding s(1) snd_conv using r1 r2 r3 by (intro conjI)
qed

text \<open>
  C9 as the specification words it fails for names that extend one another: after a
  builder named \<^verbatim>\<open>my_date_format.by_batch\<close> has written its record, the write of a builder
  named \<^verbatim>\<open>my_date_format\<close> replaces the node that holds it, and the earlier entry can no
  longer be read.
\<close>

theorem nested_name_counterexample:
  "read_node (split_dots ''$parameter.my_date_format.by_batch'')
       (snd (build_parameters
               ((demo_builder (PyList [''%Y-%m-%d'']) (PyFloat (Finite 1)))\<lparr>name := ''my_date_format.by_batch''\<rparr>)
               0 (demo_env [2, 1] [(''%Y-%m-%d'', [0, 0])]) [] (\<lambda>a. Node [])) 0)
     = Some \<lparr>value = PyStr ''%Y-%m-%d'', details = [(''success_ratio'', PyFloat (Finite 1))]\<rparr>
   \<and> read_node (split_dots ''$parameter.my_date_format.by_batch'')
       (snd (build_parameters
               (demo_builder (PyList [''%Y-%m-%d'']) (PyFloat (Finite 1)))
               0 (demo_env [2, 1] [(''%Y-%m-%d'', [0, 0])]) []
               (snd (build_parameters
                       ((demo_builder (PyList [''%Y-%m-%d'']) (PyFloat (Finite 1)))\<lparr>name := ''my_date_format.by_batch''\<rparr>)
                       0 (demo_env [2, 1] [(''%Y-%m-%d'', [0, 0])]) [] (\<lambda>a. Node [])))) 0)
     = None"
proof -
  let ?e = "demo_env [2, 1] [(''%Y-%m-%d'', [0, 0])]"
  let ?b = "demo_builder (PyList [''%Y-%m-%d'']) (PyFloat (Finite 1))"
  let ?bn = "?b\<lparr>name := ''my_date_format.by_batch''\<rparr>"
  have i1: "build_parameters_impl ?bn (0 :: nat) ?e
              = Inr (PyStr ''%Y-%m-%d'', [(''success_ratio'', PyFloat (Finite 1))])"
    by (simp add: demo_defs build_parameters_impl_def)
  have i2: "build_parameters_impl ?b (0 :: nat) ?e
              = Inr (PyStr ''%Y-%m-%d'', [(''success_ratio'', PyFloat (Finite 1))])"
    by (simp add: demo_defs build_parameters_impl_def)
  have n1: "split_dots (fully_qualified_parameter_name ?bn)
              = [''$parameter'', ''my_date_format'', ''by_batch'']"
    by (simp add: fully_qualified_parameter_name_def demo_builder_def)
  have n2: "split_dots (fully_qualified_parameter_name ?b) = [''$parameter'', ''my_date_format'']"
    by (simp add: fully_qualified_parameter_name_def demo_builder_def)
  have n3: "split_dots ''$parameter.my_date_format.by_batch''
              = [''$parameter'', ''my_date_format'', ''by_batch'']"
    by simp
  show ?thesis
    unfolding build_parameters_def i1 i2 n1 n2 n3
    by (simp add: AList.merge_def)
qed

end
